theory Spec2Isabelle
  imports Complex_Main "HOL-Library.AList"
begin

section \<open>Data model\<close>

text \<open>
  The two scripts \<^verbatim>\<open>create_graph.py\<close> and \<^verbatim>\<open>find_route.py\<close> work on a NetworkX
  multigraph whose nodes and edges carry attribute dictionaries. An attribute dictionary
  is a record of optional fields (\<open>None\<close>: the key is absent), the graph is a pair of
  association lists in insertion order, and Python floats are idealised as reals:
  the sums, products and quotients of the weights are exact. Where a float is turned
  into an integer (\<^verbatim>\<open>int\<close>, \<^verbatim>\<open>math.ceil\<close>, \<^verbatim>\<open>math.floor\<close>) the rounding of the
  doubles decides the result, and it is modelled (see \<open>fl\<close> below).
  Exceptions are values of the type \<open>error\<close>.
\<close>

datatype error =
  TypeError | ZeroDivisionError | KeyError | ValueError | IndexError | AttributeError
  | NetworkXNoPath | NodeNotFound | LibraryError

text \<open>A numeric attribute that may hold Python's \<open>None\<close> (JSON \<open>null\<close>).\<close>

datatype py_num = PyNone | Num real

type_synonym node_id = int

type_synonym edge_id = "node_id \<times> node_id \<times> int"

record node_data =
  x_attr :: "real option"
  y_attr :: "real option"
  elevation :: "real option"

record edge_data =
  length_attr :: "real option"
  grade :: "py_num option"
  stairs :: "string option"
  width :: "real option"
  surface :: "string option"
  lit :: "string option"
  obstacle_score :: "real option"
  weight :: "real option"
  original_obstacle_score :: "real option"
  tags :: "(string \<rightharpoonup> string) option"

record graph =
  nodes :: "(node_id \<times> node_data) list"
  edges :: "(edge_id \<times> edge_data) list"

record location =
  latitude :: "real option"
  longitude :: "real option"

record obstacle =
  obstacleType :: "string option"
  obstacleScore :: "real option"
  location_attr :: "location option"

record preferences =
  maxSlope :: "real option"
  avoidStairs :: "bool option"
  minimumWidth :: "real option"

text \<open>\<^verbatim>\<open>d.get(key, default)\<close> on an optional field.\<close>

definition dict_get :: "'a option \<Rightarrow> 'a \<Rightarrow> 'a" where
  "dict_get field dflt = (case field of None \<Rightarrow> dflt | Some v \<Rightarrow> v)"

section \<open>Doubles\<close>

text \<open>
  A Python float is an IEEE 754 double. \<open>fl x\<close> is the double nearest to the real
  \<open>x\<close>, a tie going to the even significand: 53 bits of significand above
  \<open>2 powr (- 1022)\<close>, multiples of \<open>2 powr (- 1074)\<close> below. A float literal
  denotes \<open>fl\<close> of its decimal value, and the product or the quotient of two doubles
  is \<open>fl\<close> of the exact one. Infinities and NaN are not modelled: \<open>fl\<close> is meant for
  values below the largest double.
\<close>

definition round_half_even :: "real \<Rightarrow> int" where
  "round_half_even v =
    (let f = \<lfloor>v\<rfloor>; r = v - of_int f
     in if r < 1 / 2 then f else if r > 1 / 2 then f + 1 else if even f then f else f + 1)"

definition fl :: "real \<Rightarrow> real" where
  "fl x =
    (if x = 0 then 0
     else let q = max (\<lfloor>log 2 \<bar>x\<bar>\<rfloor> - 52) (- 1074)
          in of_int (round_half_even (x / 2 powr of_int q)) * 2 powr of_int q)"

section \<open>The weight calculator (\<^verbatim>\<open>find_route.py\<close>)\<close>

definition DEFAULT_WALKING_SPEED :: real where
  "DEFAULT_WALKING_SPEED = fl (14 / 10)"

definition MAX_OBSTACLE_INFLUENCE :: real where
  "MAX_OBSTACLE_INFLUENCE = 100"

definition obstacle_weights :: "(string \<times> real) list" where
  "obstacle_weights =
    [(''STAIRS'', 1000), (''NARROW_PATH'', 800), (''STEEP_INCLINE'', 900),
     (''UNEVEN_SURFACE'', 700), (''OBSTACLE_IN_PATH'', 1000), (''POOR_LIGHTING'', 500),
     (''CONSTRUCTION'', 900), (''MISSING_RAMP'', 800), (''MISSING_CROSSWALK'', 700),
     (''OTHER'', 600)]"

text \<open>
  The body of the first loop of \<^verbatim>\<open>calculate_obstacle_weights\<close> (lines 80 to 106), for
  one edge. The two divisions raise \<open>ZeroDivisionError\<close> on a zero preference, and
  \<^verbatim>\<open>abs(None)\<close> raises \<open>TypeError\<close>; nothing in the function catches them.
\<close>

definition edge_weight :: "preferences \<Rightarrow> edge_data \<Rightarrow> error + edge_data" where
  "edge_weight user_preferences data =
    (let max_slope = dict_get (maxSlope user_preferences) (8 / 100);
         avoid_stairs = dict_get (avoidStairs user_preferences) True;
         minimum_width = dict_get (minimumWidth user_preferences) (12 / 10);
         len = dict_get (length_attr data) 0;
         w0 = len;
         w1 = (if avoid_stairs \<and> stairs data = Some ''yes'' then w0 + len * 100 else w0);
         edge_width = dict_get (width data) 2
     in if edge_width < minimum_width \<and> minimum_width = 0 then Inl ZeroDivisionError
        else
          let w2 = (if edge_width < minimum_width
                    then w1 + len * ((minimum_width - edge_width) / minimum_width) * 10
                    else w1)
          in case dict_get (grade data) (Num 0) of
               PyNone \<Rightarrow> Inl TypeError
             | Num g \<Rightarrow>
                 let edge_grade = \<bar>g\<bar>
                 in if edge_grade > max_slope \<and> max_slope = 0 then Inl ZeroDivisionError
                    else
                      let w3 = (if edge_grade > max_slope
                                then w2 + len * ((edge_grade - max_slope) / max_slope) * 20
                                else w2)
                      in Inr (data\<lparr>weight := Some w3,
                                original_obstacle_score :=
                                  Some (dict_get (obstacle_score data) 0)\<rparr>))"

fun weight_edges ::
  "preferences \<Rightarrow> (edge_id \<times> edge_data) list \<Rightarrow> error + (edge_id \<times> edge_data) list"
where
  "weight_edges user_preferences [] = Inr []"
| "weight_edges user_preferences ((e, data) # rest) =
    (case edge_weight user_preferences data of
       Inl err \<Rightarrow> Inl err
     | Inr data' \<Rightarrow>
         (case weight_edges user_preferences rest of
            Inl err \<Rightarrow> Inl err
          | Inr rest' \<Rightarrow> Inr ((e, data') # rest')))"

text \<open>
  \<^verbatim>\<open>ox.distance.nearest_edges(graph, lng, lat, return_dist=True)\<close> is a call into the
  OSMnx library: a parameter of the model. Its value is the sequence of
  \<open>(edge, dist)\<close> pairs that the loop of line 128 iterates over, or the exception that
  the call, or the first unpacking of line 128, raises.
\<close>

type_synonym nearest_edges = "graph \<Rightarrow> real \<Rightarrow> real \<Rightarrow> error + (edge_id \<times> real) list"

text \<open>
  Lines 137 and 138: \<^verbatim>\<open>graph[u][v][k]['weight'] += edge_penalty\<close> raises \<open>KeyError\<close>
  when the edge or its weight is missing; the obstacle score is read with default 0.
\<close>

definition add_penalty :: "edge_id \<Rightarrow> real \<Rightarrow> graph \<Rightarrow> error + graph" where
  "add_penalty e edge_penalty g =
    (case map_of (edges g) e of
       None \<Rightarrow> Inl KeyError
     | Some data \<Rightarrow>
         (case weight data of
            None \<Rightarrow> Inl KeyError
          | Some w \<Rightarrow>
              Inr (g\<lparr>edges :=
                AList.update e
                  (data\<lparr>weight := Some (w + edge_penalty),
                        obstacle_score :=
                          Some (dict_get (obstacle_score data) 0 + edge_penalty)\<rparr>)
                  (edges g)\<rparr>)))"

text \<open>
  The loop of lines 128 to 138. An exception leaves it (the \<^verbatim>\<open>except\<close> of line 139
  prints a message); the penalties already added stay, since the graph is mutated in
  place.
\<close>

fun apply_penalties :: "real \<Rightarrow> (edge_id \<times> real) list \<Rightarrow> graph \<Rightarrow> graph" where
  "apply_penalties obstacle_weight [] g = g"
| "apply_penalties obstacle_weight ((e, dst) # rest) g =
    (if dst \<le> MAX_OBSTACLE_INFLUENCE then
       (let distance_factor = 1 - dst / MAX_OBSTACLE_INFLUENCE;
            edge_penalty = obstacle_weight * distance_factor
        in case add_penalty e edge_penalty g of
             Inl err \<Rightarrow> g
           | Inr g' \<Rightarrow> apply_penalties obstacle_weight rest g')
     else apply_penalties obstacle_weight rest g)"

text \<open>The body of the loop over the obstacles (lines 110 to 140).\<close>

definition obstacle_weight_of :: "obstacle \<Rightarrow> real" where
  "obstacle_weight_of ob =
    (let obstacle_type = dict_get (obstacleType ob) ''OTHER'';
         score = dict_get (obstacleScore ob) 1
     in dict_get (map_of obstacle_weights obstacle_type) 600 * score)"

definition obstacle_lat :: "obstacle \<Rightarrow> real" where
  "obstacle_lat ob = (case location_attr ob of None \<Rightarrow> 0 | Some loc \<Rightarrow> dict_get (latitude loc) 0)"

definition obstacle_lng :: "obstacle \<Rightarrow> real" where
  "obstacle_lng ob = (case location_attr ob of None \<Rightarrow> 0 | Some loc \<Rightarrow> dict_get (longitude loc) 0)"

definition apply_obstacle :: "nearest_edges \<Rightarrow> obstacle \<Rightarrow> graph \<Rightarrow> graph" where
  "apply_obstacle ne ob g =
    (let obstacle_weight = obstacle_weight_of ob;
         lat = obstacle_lat ob;
         lng = obstacle_lng ob
     in if lat = 0 \<and> lng = 0 then g
        else (case ne g lng lat of
                Inl err \<Rightarrow> g
              | Inr nearest \<Rightarrow> apply_penalties obstacle_weight nearest g))"

text \<open>
  What OSMnx returns for the call of line 125 is not in the source of this repository;
  by its documentation \<^verbatim>\<open>nearest_edges\<close>, called with one longitude and one latitude
  and \<^verbatim>\<open>return_dist=True\<close>, returns one pair: the nearest edge \<open>(u, v, key)\<close> and
  its distance. The loop of line 128 iterates over that pair. Its first item is the triple
  \<open>(u, v, key)\<close>, which does not unpack into \<^verbatim>\<open>edge, dist\<close>: a \<open>ValueError\<close>, raised
  before any penalty is added and caught by line 139. \<open>scalar_nearest_edges\<close> is the
  lookup parameter of the model for such a library function \<open>nearest_edge\<close>.
\<close>

definition scalar_nearest_edges ::
  "(graph \<Rightarrow> real \<Rightarrow> real \<Rightarrow> error + edge_id \<times> real) \<Rightarrow> nearest_edges"
where
  "scalar_nearest_edges nearest_edge g lng lat =
    (case nearest_edge g lng lat of
       Inl err \<Rightarrow> Inl err
     | Inr (edge, dst) \<Rightarrow> Inl ValueError)"

text \<open>
  \<^verbatim>\<open>calculate_obstacle_weights(graph, obstacles, user_preferences=None)\<close>: the first loop
  over all edges, then the loop over the obstacles.
\<close>

definition no_preferences :: preferences where
  "no_preferences = \<lparr>maxSlope = None, avoidStairs = None, minimumWidth = None\<rparr>"

definition preferences_or_default :: "preferences option \<Rightarrow> preferences" where
  "preferences_or_default user_preferences =
    (case user_preferences of None \<Rightarrow> no_preferences | Some p \<Rightarrow> p)"

definition calculate_obstacle_weights ::
  "nearest_edges \<Rightarrow> graph \<Rightarrow> obstacle list \<Rightarrow> preferences option \<Rightarrow> error + graph"
where
  "calculate_obstacle_weights ne g obstacles user_preferences =
    (case weight_edges (preferences_or_default user_preferences) (edges g) of
       Inl err \<Rightarrow> Inl err
     | Inr es \<Rightarrow> Inr (fold (apply_obstacle ne) obstacles (g\<lparr>edges := es\<rparr>)))"

section \<open>The route planner (\<^verbatim>\<open>find_route.py\<close>)\<close>

text \<open>
  \<^verbatim>\<open>ox.distance.nearest_nodes\<close> and \<^verbatim>\<open>nx.shortest_path\<close> are library calls:
  parameters of the model, each returning its value or the exception it raises.
\<close>

type_synonym nearest_nodes = "graph \<Rightarrow> real \<Rightarrow> real \<Rightarrow> error + node_id"

type_synonym shortest_path = "graph \<Rightarrow> node_id \<Rightarrow> node_id \<Rightarrow> error + node_id list"

record route_point =
  point_latitude :: real
  point_longitude :: real

record route_step =
  instructions :: string
  step_distance :: string
  step_duration :: string
  startLocation :: route_point
  endLocation :: route_point

record route =
  points :: "route_point list"
  distance :: real
  duration :: string
  hasObstacles :: bool
  steps :: "route_step list"

text \<open>Python's \<^verbatim>\<open>str\<close> of an integer, as the f-strings of lines 188, 192 and 206 use it.\<close>

fun str_nat :: "nat \<Rightarrow> string" where
  "str_nat n =
    (if n < 10 then [''0123456789'' ! n]
     else str_nat (n div 10) @ [''0123456789'' ! (n mod 10)])"

declare str_nat.simps [simp del]

definition str_int :: "int \<Rightarrow> string" where
  "str_int i = (if i < 0 then CHR ''-'' # str_nat (nat (- i)) else str_nat (nat i))"

text \<open>
  Python's \<^verbatim>\<open>round\<close>: to the nearest integer, a tie to the even one; with two digits
  it is the same on the value scaled by 100.
\<close>

definition py_round :: "real \<Rightarrow> int" where
  "py_round v =
    (let f = \<lfloor>v\<rfloor>; r = v - of_int f
     in if r < 1 / 2 then f else if r > 1 / 2 then f + 1 else if even f then f else f + 1)"

definition py_round2 :: "real \<Rightarrow> real" where
  "py_round2 v = of_int (py_round (v * 100)) / 100"

text \<open>Lines 165 to 169: the coordinates of the nodes of the path.\<close>

fun route_points_of :: "graph \<Rightarrow> node_id list \<Rightarrow> error + route_point list" where
  "route_points_of g [] = Inr []"
| "route_points_of g (node # rest) =
    (case map_of (nodes g) node of
       None \<Rightarrow> Inl KeyError
     | Some nd \<Rightarrow>
         (case y_attr nd of
            None \<Rightarrow> Inl KeyError
          | Some lat \<Rightarrow>
              (case x_attr nd of
                 None \<Rightarrow> Inl KeyError
               | Some lng \<Rightarrow>
                   (case route_points_of g rest of
                      Inl err \<Rightarrow> Inl err
                    | Inr pts \<Rightarrow>
                        Inr (\<lparr>point_latitude = lat, point_longitude = lng\<rparr> # pts)))))"

text \<open>
  \<^verbatim>\<open>graph.get_edge_data(u, v, 0)\<close> is the data of the edge with key 0 from \<open>u\<close> to
  \<open>v\<close>, or \<open>None\<close>; \<^verbatim>\<open>edge_data.get\<close> on \<open>None\<close> raises \<open>AttributeError\<close>.
\<close>

definition get_edge_data :: "graph \<Rightarrow> node_id \<Rightarrow> node_id \<Rightarrow> int \<Rightarrow> edge_data option" where
  "get_edge_data g u v k = map_of (edges g) (u, v, k)"

text \<open>The loop of lines 174 to 180 over the consecutive pairs of the path.\<close>

fun route_stats :: "graph \<Rightarrow> node_id list \<Rightarrow> real \<Rightarrow> bool \<Rightarrow> error + real \<times> bool" where
  "route_stats g (u # v # rest) route_length route_obstacles =
    (case get_edge_data g u v 0 of
       None \<Rightarrow> Inl AttributeError
     | Some ed \<Rightarrow>
         route_stats g (v # rest)
           (route_length + dict_get (length_attr ed) 0)
           (if dict_get (obstacle_score ed) 0 > 0 \<or> dict_get (original_obstacle_score ed) 0 > 0
            then True else route_obstacles))"
| "route_stats g path route_length route_obstacles = Inr (route_length, route_obstacles)"

text \<open>
  Lines 183 to 192: the duration string of a route of the given length. The two
  divisions are divisions of doubles, and so is \<^verbatim>\<open>duration_minutes / 60\<close>.
\<close>

definition duration_str :: "real \<Rightarrow> string" where
  "duration_str route_length =
    (let duration_seconds = fl (route_length / DEFAULT_WALKING_SPEED);
         duration_minutes = \<lceil>fl (duration_seconds / 60)\<rceil>
     in if duration_minutes < 60 then str_int duration_minutes @ '' mins''
        else
          let hours = \<lfloor>fl (real_of_int duration_minutes / 60)\<rfloor>;
              mins = duration_minutes mod 60
          in str_int hours @ '' hours '' @ str_int mins @ '' mins'')"

text \<open>The body of the \<^verbatim>\<open>try\<close> of \<^verbatim>\<open>find_accessible_route\<close> (lines 157 to 214).\<close>

definition plan_route ::
  "nearest_nodes \<Rightarrow> shortest_path \<Rightarrow> graph \<Rightarrow> real \<times> real \<Rightarrow> real \<times> real \<Rightarrow> error + route"
where
  "plan_route nn sp g origin destination =
    (case nn g (snd origin) (fst origin) of
       Inl err \<Rightarrow> Inl err
     | Inr origin_node \<Rightarrow>
    (case nn g (snd destination) (fst destination) of
       Inl err \<Rightarrow> Inl err
     | Inr dest_node \<Rightarrow>
    (case sp g origin_node dest_node of
       Inl err \<Rightarrow> Inl err
     | Inr path \<Rightarrow>
    (case route_points_of g path of
       Inl err \<Rightarrow> Inl err
     | Inr route_points \<Rightarrow>
    (case route_stats g path 0 False of
       Inl err \<Rightarrow> Inl err
     | Inr (route_length, route_obstacles) \<Rightarrow>
    (case route_points of
       [] \<Rightarrow> Inl IndexError
     | first_point # _ \<Rightarrow>
         Inr \<lparr>points = route_points,
              distance = py_round2 (route_length / 1000),
              duration = duration_str route_length,
              hasObstacles = route_obstacles,
              steps =
                [\<lparr>instructions = ''Follow the accessible path.'',
                  step_distance = str_int (py_round route_length) @ '' m'',
                  step_duration = duration_str route_length,
                  startLocation = first_point,
                  endLocation = last route_points\<rparr>]\<rparr>))))))"

text \<open>
  \<^verbatim>\<open>find_accessible_route\<close>: every exception of the body is caught (line 215), a
  message goes to the error stream and the result is \<open>None\<close>.
\<close>

definition find_accessible_route ::
  "nearest_nodes \<Rightarrow> shortest_path \<Rightarrow> graph \<Rightarrow> real \<times> real \<Rightarrow> real \<times> real \<Rightarrow> route option"
where
  "find_accessible_route nn sp g origin destination =
    (case plan_route nn sp g origin destination of Inl err \<Rightarrow> None | Inr r \<Rightarrow> Some r)"

text \<open>
  Lines 257 to 270 of \<^verbatim>\<open>main\<close>, once the arguments are parsed and the graph is
  deserialised: the route is printed to the standard output, or the process exits with
  status 1 and prints no route.
\<close>

datatype outcome = Printed route | Exit1

definition route_request ::
  "nearest_edges \<Rightarrow> nearest_nodes \<Rightarrow> shortest_path \<Rightarrow> graph \<Rightarrow> real \<times> real \<Rightarrow> real \<times> real
    \<Rightarrow> obstacle list \<Rightarrow> preferences option \<Rightarrow> outcome"
where
  "route_request ne nn sp graph origin destination obstacles user_preferences =
    (case calculate_obstacle_weights ne graph obstacles user_preferences of
       Inl err \<Rightarrow> Exit1
     | Inr g \<Rightarrow>
         (case find_accessible_route nn sp g origin destination of
            None \<Rightarrow> Exit1
          | Some r \<Rightarrow> Printed r))"

section \<open>Attribute enrichment (\<^verbatim>\<open>create_graph.py\<close>)\<close>

subsection \<open>The string methods used on the width tag\<close>

text \<open>
  \<^verbatim>\<open>s.replace(old, new)\<close> replaces the occurrences of \<open>old\<close> from the left, without
  overlap; an empty \<open>old\<close> matches before every character and at the end.
\<close>

function replace :: "string \<Rightarrow> string \<Rightarrow> string \<Rightarrow> string" where
  "replace old new [] = (if old = [] then new else [])"
| "replace old new (c # cs) =
    (if old = [] then new @ c # replace old new cs
     else if take (length old) (c # cs) = old
       then new @ replace old new (drop (length old) (c # cs))
       else c # replace old new cs)"
  by pat_completeness auto

termination
  by (relation "measure (\<lambda>(old, new, s). length s)") auto

text \<open>\<^verbatim>\<open>s.strip()\<close> removes the white space at both ends (the ASCII white space of Python).\<close>

definition is_space :: "char \<Rightarrow> bool" where
  "is_space c =
    (c \<in> set [CHR '' '', CHR 0x09, CHR 0x0A, CHR 0x0B, CHR 0x0C, CHR 0x0D,
               CHR 0x1C, CHR 0x1D, CHR 0x1E, CHR 0x1F])"

definition strip :: "string \<Rightarrow> string" where
  "strip s = rev (dropWhile is_space (rev (dropWhile is_space s)))"

text \<open>\<^verbatim>\<open>sub in s\<close> on strings.\<close>

fun substring_in :: "string \<Rightarrow> string \<Rightarrow> bool" where
  "substring_in sub [] = (sub = [])"
| "substring_in sub (c # cs) = (take (length sub) (c # cs) = sub \<or> substring_in sub cs)"

subsection \<open>The width tag\<close>

text \<open>
  Lines 77 to 88. \<^verbatim>\<open>float\<close> is Python's built-in, a parameter \<open>pyfloat\<close> of the
  model: \<open>None\<close> stands for its \<open>ValueError\<close>, which line 86 catches.
\<close>

definition parse_width :: "(string \<Rightarrow> real option) \<Rightarrow> string \<Rightarrow> real" where
  "parse_width pyfloat tag =
    (let width_str = strip (replace ''meters'' [] (replace ''m'' [] tag))
     in if substring_in ''cm'' width_str
        then (case pyfloat (replace ''cm'' [] width_str) of
                None \<Rightarrow> 2
              | Some v \<Rightarrow> v / 100)
        else (case pyfloat width_str of
                None \<Rightarrow> 2
              | Some v \<Rightarrow> v))"

text \<open>
  Python's \<^verbatim>\<open>float\<close> on the plain decimal literals (an optional sign, digits, an
  optional point and digits, white space around), to evaluate \<open>parse_width\<close> on such
  inputs. The other forms \<^verbatim>\<open>float\<close> accepts (an exponent, \<^verbatim>\<open>inf\<close>, \<^verbatim>\<open>nan\<close>,
  underscores) are not covered: here they are rejected.
\<close>

definition digit_val :: "char \<Rightarrow> nat option" where
  "digit_val c =
    map_of [(CHR ''0'', 0), (CHR ''1'', 1), (CHR ''2'', 2), (CHR ''3'', 3), (CHR ''4'', 4),
            (CHR ''5'', 5), (CHR ''6'', 6), (CHR ''7'', 7), (CHR ''8'', 8), (CHR ''9'', 9)] c"

fun digits_val :: "string \<Rightarrow> nat \<Rightarrow> nat option" where
  "digits_val [] acc = Some acc"
| "digits_val (c # cs) acc =
    (case digit_val c of None \<Rightarrow> None | Some v \<Rightarrow> digits_val cs (acc * 10 + v))"

definition float_plain :: "string \<Rightarrow> real option" where
  "float_plain s =
    (let t = strip s;
         negative = (take 1 t = ''-'');
         u = (if take 1 t = ''-'' \<or> take 1 t = ''+'' then drop 1 t else t);
         int_part = takeWhile (\<lambda>c. c \<noteq> CHR ''.'') u;
         frac_part = drop 1 (dropWhile (\<lambda>c. c \<noteq> CHR ''.'') u)
     in if int_part = [] \<and> frac_part = [] then None
        else
          (case (digits_val int_part 0, digits_val frac_part 0) of
             (Some i, Some f) \<Rightarrow>
               Some ((if negative then - 1 else 1) * (real i + real f / 10 ^ length frac_part))
           | _ \<Rightarrow> None))"

subsection \<open>The enrichment of one edge\<close>

text \<open>
  \<^verbatim>\<open>data['obstacle_score'] += n\<close>; the key is present wherever the loop does this
  (line 64 sets it).
\<close>

definition add_score :: "real \<Rightarrow> edge_data \<Rightarrow> edge_data" where
  "add_score n data = data\<lparr>obstacle_score := Some (dict_get (obstacle_score data) 0 + n)\<rparr>"

definition problematic_surfaces :: "string list" where
  "problematic_surfaces = [''cobblestone'', ''gravel'', ''dirt'', ''sand'', ''mud'']"

text \<open>Lines 68 to 102, for the tags \<open>tgs\<close> of the edge.\<close>

definition apply_tags :: "(string \<Rightarrow> real option) \<Rightarrow> (string \<rightharpoonup> string) \<Rightarrow> edge_data \<Rightarrow> edge_data" where
  "apply_tags pyfloat tgs data =
    (let d1 = (if tgs ''highway'' = Some ''steps'' \<or> tgs ''stairs'' = Some ''yes''
               then add_score 100 (data\<lparr>stairs := Some ''yes''\<rparr>) else data);
         d2 = (case tgs ''width'' of
                 None \<Rightarrow> d1
               | Some width_str \<Rightarrow> d1\<lparr>width := Some (parse_width pyfloat width_str)\<rparr>);
         d3 = (case tgs ''surface'' of
                 None \<Rightarrow> d2
               | Some sf \<Rightarrow>
                   (if sf \<in> set problematic_surfaces
                    then add_score 50 (d2\<lparr>surface := Some sf\<rparr>)
                    else d2\<lparr>surface := Some sf\<rparr>))
     in (case tgs ''lit'' of
           None \<Rightarrow> d3
         | Some lt \<Rightarrow>
             (if lt = ''no'' then add_score 20 (d3\<lparr>lit := Some lt\<rparr>)
              else d3\<lparr>lit := Some lt\<rparr>)))"

text \<open>Python's \<^verbatim>\<open>int\<close> of a float: truncation towards zero.\<close>

definition py_int :: "real \<Rightarrow> int" where
  "py_int v = (if v \<ge> 0 then \<lfloor>v\<rfloor> else \<lceil>v\<rceil>)"

text \<open>
  Lines 105 to 108: the slope-based obstacle score. The grade is a double, \<^verbatim>\<open>0.08\<close>
  is the double nearest to 0.08, and \<^verbatim>\<open>grade * 100\<close> is the product of doubles.
\<close>

definition add_slope_score :: "edge_data \<Rightarrow> edge_data" where
  "add_slope_score data =
    (case grade data of
       Some (Num gr) \<Rightarrow>
         (let g = \<bar>gr\<bar>
          in if g > fl (8 / 100) then add_score (of_int (min 100 (py_int (fl (g * 100))))) data
             else data)
     | _ \<Rightarrow> data)"

text \<open>Lines 60 to 102: the defaults, then the tags when the edge has any.\<close>

definition init_and_tags :: "(string \<Rightarrow> real option) \<Rightarrow> edge_data \<Rightarrow> edge_data" where
  "init_and_tags pyfloat data =
    (let d1 = data\<lparr>stairs := Some ''no'', width := Some 2, surface := Some ''unknown'',
                   lit := Some ''unknown'', obstacle_score := Some 0\<rparr>
     in case tags d1 of None \<Rightarrow> d1 | Some tgs \<Rightarrow> apply_tags pyfloat tgs d1)"

text \<open>The body of the loop of lines 58 to 108.\<close>

definition enrich_edge :: "(string \<Rightarrow> real option) \<Rightarrow> edge_data \<Rightarrow> edge_data" where
  "enrich_edge pyfloat data = add_slope_score (init_and_tags pyfloat data)"

text \<open>
  \<^verbatim>\<open>create_graph\<close>: \<open>fetched\<close> is what \<^verbatim>\<open>ox.graph_from_bbox\<close> returns or raises and
  \<open>add_elevation\<close> stands for the two elevation calls of lines 47 and 49; when they
  raise, every edge gets the grade 0. An exception of the first call makes the result
  \<open>None\<close> (line 112).
\<close>

definition create_graph ::
  "(string \<Rightarrow> real option) \<Rightarrow> error + graph \<Rightarrow> (graph \<Rightarrow> error + graph) \<Rightarrow> graph option"
where
  "create_graph pyfloat fetched add_elevation =
    (case fetched of
       Inl err \<Rightarrow> None
     | Inr graph \<Rightarrow>
         (let g1 = (case add_elevation graph of
                      Inl err \<Rightarrow>
                        graph\<lparr>edges := map (\<lambda>(e, data). (e, data\<lparr>grade := Some (Num 0)\<rparr>)) (edges graph)\<rparr>
                    | Inr g' \<Rightarrow> g')
          in Some (g1\<lparr>edges := map (\<lambda>(e, data). (e, enrich_edge pyfloat data)) (edges g1)\<rparr>)))"

section \<open>The properties, in the words of the specification\<close>

text \<open>
  The weight of an edge before the obstacle list is looked at: the length, plus the
  three preference penalties.
\<close>

definition weight_formula :: "real \<Rightarrow> bool \<Rightarrow> real \<Rightarrow> real \<Rightarrow> real \<Rightarrow> bool \<Rightarrow> real \<Rightarrow> real" where
  "weight_formula len has_stairs wd gr max_slope avoid_stairs minimum_width =
     len
     + (if avoid_stairs \<and> has_stairs then len * 100 else 0)
     + (if wd < minimum_width then len * ((minimum_width - wd) / minimum_width) * 10 else 0)
     + (if \<bar>gr\<bar> > max_slope then len * ((\<bar>gr\<bar> - max_slope) / max_slope) * 20 else 0)"

definition grade_value :: "edge_data \<Rightarrow> real" where
  "grade_value data = (case grade data of Some (Num g) \<Rightarrow> g | _ \<Rightarrow> 0)"

definition base_weight_spec :: "preferences \<Rightarrow> edge_data \<Rightarrow> real" where
  "base_weight_spec prefs data =
     weight_formula (dict_get (length_attr data) 0) (stairs data = Some ''yes'')
       (dict_get (width data) 2) (grade_value data)
       (dict_get (maxSlope prefs) (8 / 100)) (dict_get (avoidStairs prefs) True)
       (dict_get (minimumWidth prefs) (12 / 10))"

text \<open>
  The same weight, written from the request alone: each preference is the caller's
  value when the request gives one, and the default 0.08, true or 1.2 when it does not;
  an edge without a length counts 0 meters, without a width 2.0 meters, without a
  grade 0.
\<close>

definition max_slope_spec :: "preferences option \<Rightarrow> real" where
  "max_slope_spec request =
    (case request of
       None \<Rightarrow> 8 / 100
     | Some p \<Rightarrow> (case maxSlope p of None \<Rightarrow> 8 / 100 | Some v \<Rightarrow> v))"

definition avoid_stairs_spec :: "preferences option \<Rightarrow> bool" where
  "avoid_stairs_spec request =
    (case request of
       None \<Rightarrow> True
     | Some p \<Rightarrow> (case avoidStairs p of None \<Rightarrow> True | Some b \<Rightarrow> b))"

definition minimum_width_spec :: "preferences option \<Rightarrow> real" where
  "minimum_width_spec request =
    (case request of
       None \<Rightarrow> 12 / 10
     | Some p \<Rightarrow> (case minimumWidth p of None \<Rightarrow> 12 / 10 | Some v \<Rightarrow> v))"

definition edge_weight_spec :: "preferences option \<Rightarrow> edge_data \<Rightarrow> real" where
  "edge_weight_spec request data =
     weight_formula
       (case length_attr data of None \<Rightarrow> 0 | Some l \<Rightarrow> l)
       (stairs data = Some ''yes'')
       (case width data of None \<Rightarrow> 2 | Some w \<Rightarrow> w)
       (grade_value data)
       (max_slope_spec request) (avoid_stairs_spec request) (minimum_width_spec request)"

text \<open>Every edge has a weight, and it is at least the length of the edge.\<close>

definition weight_ge_length :: "graph \<Rightarrow> bool" where
  "weight_ge_length g =
    list_all (\<lambda>(e, data). case weight data of None \<Rightarrow> False
                            | Some w \<Rightarrow> w \<ge> dict_get (length_attr data) 0) (edges g)"

text \<open>
  What an obstacle of base weight \<open>base_weight\<close> adds to the edge \<open>e\<close>, when
  \<open>nearest\<close> pairs the edges found near it with their distances: the linear decay
  over the radius of 100 meters.
\<close>

definition total_penalty :: "real \<Rightarrow> (edge_id \<times> real) list \<Rightarrow> edge_id \<Rightarrow> real" where
  "total_penalty base_weight nearest e =
    sum_list (map (\<lambda>(e', dst). if e' = e \<and> dst \<le> 100 then base_weight * (1 - dst / 100) else 0)
      nearest)"

text \<open>The attributes the weight calculator leaves alone.\<close>

definition erase_scores :: "edge_data \<Rightarrow> edge_data" where
  "erase_scores data =
    data\<lparr>weight := None, obstacle_score := None, original_obstacle_score := None\<rparr>"

definition frame :: "graph \<Rightarrow> (node_id \<times> node_data) list \<times> (edge_id \<times> edge_data) list" where
  "frame g = (nodes g, map (\<lambda>(e, data). (e, erase_scores data)) (edges g))"

definition same_attributes :: "edge_data \<Rightarrow> edge_data \<Rightarrow> bool" where
  "same_attributes data data' =
    (length_attr data' = length_attr data \<and> grade data' = grade data \<and>
     stairs data' = stairs data \<and> width data' = width data \<and>
     surface data' = surface data \<and> lit data' = lit data \<and> tags data' = tags data)"


text \<open>The minutes of a route of \<open>l\<close> meters, and the duration string of the minutes.\<close>

definition minutes_spec :: "real \<Rightarrow> int" where
  "minutes_spec l = \<lceil>(l / (14 / 10)) / 60\<rceil>"

definition format_minutes_spec :: "int \<Rightarrow> string" where
  "format_minutes_spec m =
    (if m < 60 then str_int m @ '' mins''
     else str_int (m div 60) @ '' hours '' @ str_int (m mod 60) @ '' mins'')"

text \<open>
  A path exists from \<open>s\<close> to \<open>t\<close> along the directed edges of the graph (OSMnx builds
  directed multigraphs).
\<close>

definition reachable :: "graph \<Rightarrow> node_id \<Rightarrow> node_id \<Rightarrow> bool" where
  "reachable g s t = ((s, t) \<in> {(u, v). \<exists>k data. ((u, v, k), data) \<in> set (edges g)}\<^sup>*)"

text \<open>
  The edge a weighted shortest path takes between two adjacent nodes of a multigraph:
  the cheapest of the parallel edges (NetworkX reads a missing weight as 1).
\<close>

definition parallel_edges :: "graph \<Rightarrow> node_id \<Rightarrow> node_id \<Rightarrow> (edge_id \<times> edge_data) list" where
  "parallel_edges g u v = filter (\<lambda>((a, b, k), data). a = u \<and> b = v) (edges g)"

definition cheapest_edge :: "graph \<Rightarrow> node_id \<Rightarrow> node_id \<Rightarrow> (edge_id \<times> edge_data) option" where
  "cheapest_edge g u v =
    (case parallel_edges g u v of
       [] \<Rightarrow> None
     | x # xs \<Rightarrow>
         Some (fold (\<lambda>y best. if dict_get (weight (snd y)) 1 < dict_get (weight (snd best)) 1
                               then y else best) xs x))"

section \<open>Example data\<close>

definition plain_edge :: "real \<Rightarrow> edge_data" where
  "plain_edge len =
    \<lparr>length_attr = Some len, grade = Some (Num 0), stairs = Some ''no'', width = Some 2,
     surface = Some ''unknown'', lit = Some ''unknown'', obstacle_score = Some 0,
     weight = None, original_obstacle_score = None, tags = None\<rparr>"

definition node_at :: "real \<Rightarrow> real \<Rightarrow> node_data" where
  "node_at lat lng = \<lparr>x_attr = Some lng, y_attr = Some lat, elevation = None\<rparr>"

text \<open>
  A triangle: a flight of stairs of 10 meters, a narrow path of 20 meters (0.6 meters
  wide) and a slope of 30 meters (grade 0.12), as the enrichment leaves them.
\<close>

definition triangle_graph :: graph where
  "triangle_graph =
    \<lparr>nodes = [(1, node_at 0 0), (2, node_at (1 / 1000) 0), (3, node_at 0 (1 / 1000))],
     edges =
       [((1, 2, 0), (plain_edge 10)\<lparr>stairs := Some ''yes'', obstacle_score := Some 100\<rparr>),
        ((2, 3, 0), (plain_edge 20)\<lparr>width := Some (6 / 10)\<rparr>),
        ((3, 1, 0), (plain_edge 30)\<lparr>grade := Some (Num (12 / 100)), obstacle_score := Some 12\<rparr>)]\<rparr>"

definition weighted_triangle_edges :: "(edge_id \<times> edge_data) list" where
  "weighted_triangle_edges =
     [((1, 2, 0), (plain_edge 10)\<lparr>stairs := Some ''yes'', obstacle_score := Some 100,
         weight := Some 1010, original_obstacle_score := Some 100\<rparr>),
      ((2, 3, 0), (plain_edge 20)\<lparr>width := Some (6 / 10),
         weight := Some 120, original_obstacle_score := Some 0\<rparr>),
      ((3, 1, 0), (plain_edge 30)\<lparr>grade := Some (Num (12 / 100)), obstacle_score := Some 12,
         weight := Some 330, original_obstacle_score := Some 12\<rparr>)]"

text \<open>
  A reported flight of stairs, and a lookup that finds the three edges at 50, 100 and
  150 meters from it.
\<close>

definition stairs_obstacle :: obstacle where
  "stairs_obstacle =
    \<lparr>obstacleType = Some ''STAIRS'', obstacleScore = Some 1,
     location_attr = Some \<lparr>latitude = Some (5 / 10000), longitude = Some (1 / 10000)\<rparr>\<rparr>"

definition triangle_nearest :: nearest_edges where
  "triangle_nearest g lng lat = Inr [((1, 2, 0), 50), ((2, 3, 0), 100), ((3, 1, 0), 150)]"

definition penalised_triangle_edges :: "(edge_id \<times> edge_data) list" where
  "penalised_triangle_edges =
     [((1, 2, 0), (plain_edge 10)\<lparr>stairs := Some ''yes'', obstacle_score := Some 600,
         weight := Some 1510, original_obstacle_score := Some 100\<rparr>),
      ((2, 3, 0), (plain_edge 20)\<lparr>width := Some (6 / 10),
         weight := Some 120, original_obstacle_score := Some 0\<rparr>),
      ((3, 1, 0), (plain_edge 30)\<lparr>grade := Some (Num (12 / 100)), obstacle_score := Some 12,
         weight := Some 330, original_obstacle_score := Some 12\<rparr>)]"

text \<open>One flat edge of 10 meters, and preferences with a negative slope threshold.\<close>

definition single_edge_graph :: graph where
  "single_edge_graph =
    \<lparr>nodes = [(1, node_at 0 0), (2, node_at (1 / 1000) 0)], edges = [((1, 2, 0), plain_edge 10)]\<rparr>"

definition negative_slope_preferences :: preferences where
  "negative_slope_preferences =
    \<lparr>maxSlope = Some (- (1 / 2)), avoidStairs = None, minimumWidth = None\<rparr>"

definition no_nearest :: nearest_edges where
  "no_nearest g lng lat = Inr []"

text \<open>
  An edge as the map source delivers it: a length, a grade and tags. This one is a slope
  of 30 meters with grade 0.12 (the double nearest to it) and no lighting.
\<close>

definition raw_edge :: "real \<Rightarrow> py_num option \<Rightarrow> (string \<rightharpoonup> string) option \<Rightarrow> edge_data" where
  "raw_edge len gr tgs =
    \<lparr>length_attr = Some len, grade = gr, stairs = None, width = None, surface = None,
     lit = None, obstacle_score = None, weight = None, original_obstacle_score = None,
     tags = tgs\<rparr>"

definition steep_unlit_edge :: edge_data where
  "steep_unlit_edge = raw_edge 30 (Some (Num (fl (12 / 100)))) (Some [''lit'' \<mapsto> ''no''])"

text \<open>
  A street of two edges of 700 meters; the lookups find node 1 at latitude 0 and node 3
  elsewhere, and the path between them.
\<close>

definition street_graph :: graph where
  "street_graph =
    \<lparr>nodes = [(1, node_at 0 0), (2, node_at (6 / 1000) 0), (3, node_at (12 / 1000) 0)],
     edges = [((1, 2, 0), (plain_edge 700)\<lparr>weight := Some 700, original_obstacle_score := Some 0\<rparr>),
              ((2, 3, 0), (plain_edge 700)\<lparr>weight := Some 700, original_obstacle_score := Some 0\<rparr>)]\<rparr>"

definition street_nearest_nodes :: nearest_nodes where
  "street_nearest_nodes g lng lat = Inr (if lat = 0 then 1 else 3)"

definition street_shortest_path :: shortest_path where
  "street_shortest_path g s t = Inr [1, 2, 3]"

definition street_route :: route where
  "street_route =
    \<lparr>points = [\<lparr>point_latitude = 0, point_longitude = 0\<rparr>,
               \<lparr>point_latitude = 6 / 1000, point_longitude = 0\<rparr>,
               \<lparr>point_latitude = 12 / 1000, point_longitude = 0\<rparr>],
     distance = 14 / 10,
     duration = ''17 mins'',
     hasObstacles = False,
     steps = [\<lparr>instructions = ''Follow the accessible path.'',
               step_distance = ''1400 m'',
               step_duration = ''17 mins'',
               startLocation = \<lparr>point_latitude = 0, point_longitude = 0\<rparr>,
               endLocation = \<lparr>point_latitude = 12 / 1000, point_longitude = 0\<rparr>\<rparr>]\<rparr>"

text \<open>
  A one-way edge from node 1 to node 2, weighted; a search that finds the paths there
  are and reports the others as missing; a lookup that finds node 1 at latitude 0.
\<close>

definition one_way_graph :: graph where
  "one_way_graph =
    \<lparr>nodes = [(1, node_at 0 0), (2, node_at (1 / 1000) 0)],
     edges = [((1, 2, 0), (plain_edge 10)\<lparr>weight := Some 10, original_obstacle_score := Some 0\<rparr>)]\<rparr>"

definition one_way_shortest_path :: shortest_path where
  "one_way_shortest_path g s t =
    (if s = t then Inr [s] else if s = 1 \<and> t = 2 then Inr [1, 2] else Inl NetworkXNoPath)"

definition one_way_nearest_nodes :: nearest_nodes where
  "one_way_nearest_nodes g lng lat = Inr (if lat = 0 then 1 else 2)"

text \<open>
  Two parallel edges from node 1 to node 2: key 0 is 100 meters long and clean, key 1
  is 10 meters long and unlit (obstacle score 20).
\<close>

definition parallel_graph :: graph where
  "parallel_graph =
    \<lparr>nodes = [(1, node_at 0 0), (2, node_at (1 / 1000) 0)],
     edges = [((1, 2, 0), plain_edge 100),
              ((1, 2, 1), (plain_edge 10)\<lparr>lit := Some ''no'', obstacle_score := Some 20\<rparr>)]\<rparr>"

definition weighted_parallel_graph :: graph where
  "weighted_parallel_graph =
    \<lparr>nodes = [(1, node_at 0 0), (2, node_at (1 / 1000) 0)],
     edges = [((1, 2, 0), (plain_edge 100)\<lparr>weight := Some 100, original_obstacle_score := Some 0\<rparr>),
              ((1, 2, 1), (plain_edge 10)\<lparr>lit := Some ''no'', obstacle_score := Some 20,
                 weight := Some 10, original_obstacle_score := Some 20\<rparr>)]\<rparr>"

definition parallel_nearest_nodes :: nearest_nodes where
  "parallel_nearest_nodes g lng lat = Inr (if lat = 0 then 1 else 2)"

definition parallel_shortest_path :: shortest_path where
  "parallel_shortest_path g s t = Inr [1, 2]"

text \<open>
  Preferences that differ from every default, and the weights the first loop gives the
  triangle under them: the stairs cost nothing extra, the narrow path
  \<open>20 + 20 * ((1 - 0.6) / 1) * 10\<close> and the slope \<open>30 + 30 * ((0.12 - 0.1) / 0.1) * 20\<close>.
\<close>

definition own_preferences :: preferences where
  "own_preferences = \<lparr>maxSlope = Some (1 / 10), avoidStairs = Some False, minimumWidth = Some 1\<rparr>"

definition own_weighted_triangle_edges :: "(edge_id \<times> edge_data) list" where
  "own_weighted_triangle_edges =
     [((1, 2, 0), (plain_edge 10)\<lparr>stairs := Some ''yes'', obstacle_score := Some 100,
         weight := Some 10, original_obstacle_score := Some 100\<rparr>),
      ((2, 3, 0), (plain_edge 20)\<lparr>width := Some (6 / 10),
         weight := Some 100, original_obstacle_score := Some 0\<rparr>),
      ((3, 1, 0), (plain_edge 30)\<lparr>grade := Some (Num (12 / 100)), obstacle_score := Some 12,
         weight := Some 150, original_obstacle_score := Some 12\<rparr>)]"

text \<open>
  The library lookup of one point: at the place of the reported stairs it finds the
  edge from 1 to 2, 50 meters away.
\<close>

definition triangle_nearest_edge :: "graph \<Rightarrow> real \<Rightarrow> real \<Rightarrow> error + edge_id \<times> real" where
  "triangle_nearest_edge g lng lat =
    (if lng = 1 / 10000 \<and> lat = 5 / 10000 then Inr ((1, 2, 0), 50) else Inl LibraryError)"



text \<open>
  One edge of 5040 meters from node 1 to node 2, with a penalty of 500 in its weight
  and in its obstacle score.
\<close>

definition long_graph :: graph where
  "long_graph =
    \<lparr>nodes = [(1, node_at 0 0), (2, node_at (45 / 1000) 0)],
     edges = [((1, 2, 0), (plain_edge 5040)\<lparr>obstacle_score := Some 500, weight := Some 5540,
                original_obstacle_score := Some 0\<rparr>)]\<rparr>"

section \<open>Doubles, evaluated\<close>

lemma floor_log2:
  assumes "2 powr of_int k \<le> x" and "x < 2 powr of_int (k + 1)"
  shows "\<lfloor>log 2 x\<rfloor> = k"
proof -
  have pos: "0 < x" using assms(1) by (smt (verit) powr_gt_zero)
  have "of_int k \<le> log 2 x" using assms(1) pos by (simp add: le_log_iff)
  moreover have "log 2 x < of_int (k + 1)" using assms(2) pos by (simp add: log_less_iff)
  ultimately show ?thesis by (simp add: floor_unique)
qed

text \<open>
  The double nearest to \<open>x\<close>, for \<open>x\<close> scaled into the range of the 53-bit integers by
  \<open>2 ^ n\<close>.
\<close>

lemma fl_eval:
  assumes "2 ^ 52 \<le> \<bar>x\<bar> * 2 ^ n" and "\<bar>x\<bar> * 2 ^ n < 2 ^ 53" and "n \<le> 1074"
  shows "fl x = of_int (round_half_even (x * 2 ^ n)) / 2 ^ n"
proof -
  have p: "(2 :: real) powr of_int (52 - int n) = 2 ^ 52 / 2 ^ n"
    by (simp add: powr_diff powr_realpow flip: powr_realpow)
  have p1: "(2 :: real) powr of_int (52 - int n + 1) = 2 ^ 53 / 2 ^ n"
    by (simp add: powr_diff powr_add powr_realpow flip: powr_realpow)
  have a: "2 powr of_int (52 - int n) \<le> \<bar>x\<bar>"
    unfolding p using assms(1) by (simp add: field_simps)
  have b: "\<bar>x\<bar> < 2 powr of_int (52 - int n + 1)"
    unfolding p1 using assms(2) by (simp add: field_simps)
  from floor_log2 [OF a b] have fl: "\<lfloor>log 2 \<bar>x\<bar>\<rfloor> = 52 - int n" .
  have q: "max (\<lfloor>log 2 \<bar>x\<bar>\<rfloor> - 52) (- 1074) = - int n"
    using assms(3) by (simp add: fl)
  have pw: "(2 :: real) powr of_int (- int n) = 1 / 2 ^ n"
    by (simp add: powr_minus powr_realpow divide_inverse)
  from assms(1) have "x \<noteq> 0" by auto
  then show ?thesis
    by (simp add: fl_def q pw Let_def del: of_int_minus)
qed

lemma fl_008: "fl (8 / 100) = 5764607523034235 / 2 ^ 56"
  by (subst fl_eval [where n = 56]) (simp_all add: round_half_even_def)

lemma fl_012: "fl (12 / 100) = 8646911284551352 / 2 ^ 56"
  by (subst fl_eval [where n = 56]) (simp_all add: round_half_even_def)


lemma fl_095: "fl (95 / 100) = 8556839292003942 / 2 ^ 53"
  by (subst fl_eval [where n = 53]) (simp_all add: round_half_even_def)

lemma fl_14: "fl (14 / 10) = 6305039478318694 / 2 ^ 52"
  by (subst fl_eval [where n = 52]) (simp_all add: round_half_even_def)

lemma fl_012_times_100: "fl (fl (12 / 100) * 100) = 12"
  unfolding fl_012 by (subst fl_eval [where n = 49]) (simp_all add: round_half_even_def)


lemma fl_095_times_100: "fl (fl (95 / 100) * 100) = 95"
  unfolding fl_095 by (subst fl_eval [where n = 46]) (simp_all add: round_half_even_def)

lemma fl_15_times_100: "fl (15 / 10 * 100) = 150"
  by (subst fl_eval [where n = 45]) (simp_all add: round_half_even_def)

section \<open>The loops of the weight calculator, step by step\<close>

text \<open>The triangle example, evaluated: the first loop alone, and the whole calculator.\<close>

lemma weight_edges_triangle:
  "weight_edges no_preferences (edges triangle_graph) = Inr weighted_triangle_edges"
  by (simp add: triangle_graph_def weighted_triangle_edges_def edge_weight_def
      no_preferences_def plain_edge_def dict_get_def Let_def)

lemma calculate_triangle:
  "calculate_obstacle_weights triangle_nearest triangle_graph [stairs_obstacle] None =
     Inr (triangle_graph\<lparr>edges := penalised_triangle_edges\<rparr>)"
  by (simp add: calculate_obstacle_weights_def preferences_or_default_def weight_edges_triangle
      apply_obstacle_def obstacle_weight_of_def obstacle_weights_def obstacle_lat_def
      obstacle_lng_def stairs_obstacle_def triangle_nearest_def add_penalty_def
      MAX_OBSTACLE_INFLUENCE_def weighted_triangle_edges_def penalised_triangle_edges_def
      plain_edge_def dict_get_def Let_def)

lemma calculate_triangle_base:
  "calculate_obstacle_weights triangle_nearest triangle_graph [] None =
     Inr (triangle_graph\<lparr>edges := weighted_triangle_edges\<rparr>)"
  by (simp add: calculate_obstacle_weights_def preferences_or_default_def weight_edges_triangle)

text \<open>A step-wise rule for the penalty loop.\<close>

lemma apply_penalties_preserves:
  assumes "P g"
    and "\<And>g0 e dst g1. P g0 \<Longrightarrow> dst \<le> MAX_OBSTACLE_INFLUENCE \<Longrightarrow>
           add_penalty e (ow * (1 - dst / MAX_OBSTACLE_INFLUENCE)) g0 = Inr g1 \<Longrightarrow> P g1"
  shows "P (apply_penalties ow nearest g)"
  using assms(1)
proof (induction nearest arbitrary: g)
  case Nil
  then show ?case by simp
next
  case (Cons a nearest)
  obtain e dst where a: "a = (e, dst)" by (cases a)
  show ?case
  proof (cases "dst \<le> MAX_OBSTACLE_INFLUENCE")
    case True
    show ?thesis
    proof (cases "add_penalty e (ow * (1 - dst / MAX_OBSTACLE_INFLUENCE)) g")
      case (Inl err)
      with True a Cons.prems show ?thesis by (simp add: Let_def)
    next
      case (Inr g1)
      from assms(2) [OF Cons.prems True Inr] have "P g1" .
      then have "P (apply_penalties ow nearest g1)" by (rule Cons.IH)
      with True a Inr show ?thesis by (simp add: Let_def)
    qed
  next
    case False
    with a Cons.IH [OF Cons.prems] show ?thesis by simp
  qed
qed

lemma apply_obstacle_preserves:
  assumes "P g"
    and "\<And>g0 e dst g1. P g0 \<Longrightarrow> dst \<le> MAX_OBSTACLE_INFLUENCE \<Longrightarrow>
           add_penalty e (obstacle_weight_of ob * (1 - dst / MAX_OBSTACLE_INFLUENCE)) g0 = Inr g1 \<Longrightarrow> P g1"
  shows "P (apply_obstacle ne ob g)"
proof -
  have "P (apply_penalties (obstacle_weight_of ob) nearest g)" for nearest
    using assms by (rule apply_penalties_preserves)
  with assms(1) show ?thesis
    by (simp add: apply_obstacle_def Let_def split: sum.splits)
qed

lemma fold_apply_obstacle_preserves:
  assumes "P g"
    and "\<And>ob g0 e dst g1. ob \<in> set obstacles \<Longrightarrow> P g0 \<Longrightarrow> dst \<le> MAX_OBSTACLE_INFLUENCE \<Longrightarrow>
           add_penalty e (obstacle_weight_of ob * (1 - dst / MAX_OBSTACLE_INFLUENCE)) g0 = Inr g1 \<Longrightarrow> P g1"
  shows "P (fold (apply_obstacle ne) obstacles g)"
  using assms
proof (induction obstacles arbitrary: g)
  case Nil
  then show ?case by simp
next
  case (Cons ob obstacles)
  have step: "P g1" if "P g0" "dst \<le> MAX_OBSTACLE_INFLUENCE"
      "add_penalty e (obstacle_weight_of ob' * (1 - dst / MAX_OBSTACLE_INFLUENCE)) g0 = Inr g1"
      "ob' \<in> set (ob # obstacles)" for ob' g0 e dst g1
    using Cons.prems(2) [OF that(4) that(1) that(2) that(3)] .
  have "P (apply_obstacle ne ob g)"
    using Cons.prems(1) by (rule apply_obstacle_preserves [where P = P]) (auto intro: step)
  then have "P (fold (apply_obstacle ne) obstacles (apply_obstacle ne ob g))"
    by (rule Cons.IH [where g = "apply_obstacle ne ob g"]) (auto intro: step)
  then show ?case by simp
qed

lemma map_update_same:
  "map_of al k = Some v \<Longrightarrow> f (k, v') = f (k, v) \<Longrightarrow> map f (AList.update k v' al) = map f al"
  by (induction al) (auto split: if_splits)

lemma edge_weight_erase:
  "edge_weight prefs data = Inr data' \<Longrightarrow> erase_scores data' = erase_scores data"
  by (auto simp: edge_weight_def erase_scores_def Let_def split: if_splits py_num.splits)

lemma weight_edges_erase:
  "weight_edges prefs es = Inr es' \<Longrightarrow>
     map (\<lambda>(e, data). (e, erase_scores data)) es' = map (\<lambda>(e, data). (e, erase_scores data)) es"
proof (induction es arbitrary: es')
  case Nil
  then show ?case by simp
next
  case (Cons a es)
  obtain e data where a: "a = (e, data)" by (cases a)
  from Cons.prems a obtain data' rest' where
    d: "edge_weight prefs data = Inr data'" and r: "weight_edges prefs es = Inr rest'"
    and es': "es' = (e, data') # rest'"
    by (auto split: sum.splits)
  from edge_weight_erase [OF d] Cons.IH [OF r] a es' show ?case by simp
qed

lemma add_penalty_frame:
  assumes "add_penalty e p g = Inr g'"
  shows "frame g' = frame g"
proof -
  from assms obtain data w where d: "map_of (edges g) e = Some data" "weight data = Some w"
    and g': "g' = g\<lparr>edges := AList.update e
        (data\<lparr>weight := Some (w + p), obstacle_score := Some (dict_get (obstacle_score data) 0 + p)\<rparr>)
        (edges g)\<rparr>"
    by (auto simp: add_penalty_def split: option.splits)
  show ?thesis
    unfolding frame_def g'
    by (simp add: map_update_same [OF d(1)] erase_scores_def)
qed

lemma fold_apply_obstacle_frame:
  "frame (fold (apply_obstacle ne) obstacles g) = frame g"
  by (rule fold_apply_obstacle_preserves [where P = "\<lambda>g'. frame g' = frame g"])
     (simp_all add: add_penalty_frame)

lemma calculate_frame:
  assumes "calculate_obstacle_weights ne g obstacles user_preferences = Inr g'"
  shows "frame g' = frame g"
proof -
  from assms obtain es where es: "weight_edges (preferences_or_default user_preferences) (edges g) = Inr es"
    and g': "g' = fold (apply_obstacle ne) obstacles (g\<lparr>edges := es\<rparr>)"
    by (auto simp: calculate_obstacle_weights_def split: sum.splits)
  have "frame g' = frame (g\<lparr>edges := es\<rparr>)"
    unfolding g' by (rule fold_apply_obstacle_frame)
  also have "\<dots> = frame g"
    using weight_edges_erase [OF es] by (simp add: frame_def)
  finally show ?thesis .
qed

lemma erase_scores_same_attributes:
  "erase_scores data' = erase_scores data \<Longrightarrow> same_attributes data data'"
  unfolding erase_scores_def same_attributes_def
  by (cases data, cases data') simp

text \<open>
  Claim C10. A call of the weight calculator that returns changes only the weight, the
  obstacle score and the original obstacle score of the edges: the nodes and their
  attributes are the same, the edges are the same in number, order and key, and every
  edge keeps its length, grade, stairs, width, surface and lit attributes (and its tags).
\<close>

theorem calculate_changes_only_scores:
  assumes "calculate_obstacle_weights ne g obstacles user_preferences = Inr g'"
  shows "nodes g' = nodes g \<and> map fst (edges g') = map fst (edges g) \<and>
         list_all2 (\<lambda>(e, data) (e', data'). e' = e \<and> same_attributes data data') (edges g) (edges g')"
proof -
  from calculate_frame [OF assms]
  have n: "nodes g' = nodes g"
    and m: "map (\<lambda>(e, data). (e, erase_scores data)) (edges g') =
            map (\<lambda>(e, data). (e, erase_scores data)) (edges g)"
    by (simp_all add: frame_def)
  from m have "list_all2 (\<lambda>x y. (\<lambda>(e, data). (e, erase_scores data)) x = (\<lambda>(e, data). (e, erase_scores data)) y)
      (edges g) (edges g')"
    by (simp add: list_all2_conv_all_nth list_eq_iff_nth_eq)
  then have l: "list_all2 (\<lambda>(e, data) (e', data'). e' = e \<and> same_attributes data data') (edges g) (edges g')"
    by (rule list_all2_mono) (auto intro: erase_scores_same_attributes [OF sym])
  from l have "map fst (edges g') = map fst (edges g)"
    by (induction rule: list_all2_induct) auto
  with n l show ?thesis by simp
qed

theorem calculate_changes_only_scores_witness:
  "calculate_obstacle_weights triangle_nearest triangle_graph [stairs_obstacle] None =
     Inr (triangle_graph\<lparr>edges := penalised_triangle_edges\<rparr>) \<and>
   nodes (triangle_graph\<lparr>edges := penalised_triangle_edges\<rparr>) = nodes triangle_graph \<and>
   map fst (edges (triangle_graph\<lparr>edges := penalised_triangle_edges\<rparr>)) =
     map fst (edges triangle_graph) \<and>
   list_all2 (\<lambda>(e, data) (e', data'). e' = e \<and> same_attributes data data')
     (edges triangle_graph) (edges (triangle_graph\<lparr>edges := penalised_triangle_edges\<rparr>))"
  using calculate_triangle calculate_changes_only_scores [OF calculate_triangle] by simp

lemma grade_value_Num:
  "dict_get (grade data) (Num 0) = Num g \<Longrightarrow> grade_value data = g"
  by (auto simp: dict_get_def grade_value_def split: option.splits py_num.splits)

lemma edge_weight_formula:
  assumes "edge_weight prefs data = Inr data'"
  shows "weight data' = Some (base_weight_spec prefs data)"
proof (cases "dict_get (grade data) (Num 0)")
  case PyNone
  with assms show ?thesis
    by (simp add: edge_weight_def Let_def split: if_splits)
next
  case (Num g)
  then have gv: "grade_value data = g" by (rule grade_value_Num)
  from assms Num show ?thesis
    unfolding base_weight_spec_def weight_formula_def gv
    by (auto simp: edge_weight_def Let_def split: if_splits)
qed

lemma edge_weight_no_zero_division:
  assumes "edge_weight prefs data = Inr data'"
  shows "(dict_get (width data) 2 < dict_get (minimumWidth prefs) (12 / 10)
            \<longrightarrow> dict_get (minimumWidth prefs) (12 / 10) \<noteq> 0) \<and>
         (\<bar>grade_value data\<bar> > dict_get (maxSlope prefs) (8 / 100)
            \<longrightarrow> dict_get (maxSlope prefs) (8 / 100) \<noteq> 0)"
proof (cases "dict_get (grade data) (Num 0)")
  case PyNone
  with assms show ?thesis
    by (simp add: edge_weight_def Let_def split: if_splits)
next
  case (Num g)
  then have gv: "grade_value data = g" by (rule grade_value_Num)
  from assms Num show ?thesis
    unfolding gv by (auto simp: edge_weight_def Let_def split: if_splits)
qed

lemma weight_formula_ge:
  assumes "0 \<le> len" "0 \<le> ms" "0 \<le> mw"
    and "wd < mw \<longrightarrow> mw \<noteq> 0" and "\<bar>gr\<bar> > ms \<longrightarrow> ms \<noteq> 0"
  shows "len \<le> weight_formula len st wd gr ms av mw"
proof -
  have a: "0 \<le> (if av \<and> st then len * 100 else 0)"
    using assms(1) by simp
  have b: "0 \<le> (if wd < mw then len * ((mw - wd) / mw) * 10 else 0)"
    using assms(1,3,4) by (auto intro!: mult_nonneg_nonneg divide_nonneg_nonneg)
  have c: "0 \<le> (if \<bar>gr\<bar> > ms then len * ((\<bar>gr\<bar> - ms) / ms) * 20 else 0)"
    using assms(1,2,5) by (auto intro!: mult_nonneg_nonneg divide_nonneg_nonneg)
  from a b c show ?thesis
    unfolding weight_formula_def by linarith
qed

lemma edge_weight_length:
  "edge_weight prefs data = Inr data' \<Longrightarrow> length_attr data' = length_attr data"
  by (auto simp: edge_weight_def Let_def split: if_splits py_num.splits)

lemma weight_edges_ge_length:
  assumes "weight_edges prefs es = Inr es'"
    and "list_all (\<lambda>(e, data). 0 \<le> dict_get (length_attr data) 0) es"
    and "0 \<le> dict_get (maxSlope prefs) (8 / 100)"
    and "0 \<le> dict_get (minimumWidth prefs) (12 / 10)"
  shows "list_all (\<lambda>(e, data). case weight data of None \<Rightarrow> False
                            | Some w \<Rightarrow> w \<ge> dict_get (length_attr data) 0) es'"
  using assms(1,2)
proof (induction es arbitrary: es')
  case Nil
  then show ?case by simp
next
  case (Cons a es)
  obtain e data where a: "a = (e, data)" by (cases a)
  from Cons.prems(1) a obtain data' rest' where
    d: "edge_weight prefs data = Inr data'" and r: "weight_edges prefs es = Inr rest'"
    and es': "es' = (e, data') # rest'"
    by (auto split: sum.splits)
  from Cons.prems(2) a have len: "0 \<le> dict_get (length_attr data) 0"
    and rest: "list_all (\<lambda>(e, data). 0 \<le> dict_get (length_attr data) 0) es"
    by simp_all
  have "dict_get (length_attr data) 0 \<le> base_weight_spec prefs data"
    unfolding base_weight_spec_def
    using len assms(3,4) edge_weight_no_zero_division [OF d]
    by (intro weight_formula_ge) simp_all
  with edge_weight_formula [OF d] edge_weight_length [OF d] Cons.IH [OF r rest] es'
  show ?case by simp
qed

lemma list_all_update:
  "list_all P al \<Longrightarrow> P (k, v) \<Longrightarrow> list_all P (AList.update k v al)"
  by (induction al) auto

lemma add_penalty_ge_length:
  assumes "add_penalty e p g = Inr g'" and "weight_ge_length g" and "0 \<le> p"
  shows "weight_ge_length g'"
proof -
  from assms(1) obtain data w where d: "map_of (edges g) e = Some data" "weight data = Some w"
    and g': "g' = g\<lparr>edges := AList.update e
        (data\<lparr>weight := Some (w + p), obstacle_score := Some (dict_get (obstacle_score data) 0 + p)\<rparr>)
        (edges g)\<rparr>"
    by (auto simp: add_penalty_def split: option.splits)
  from d(1) have "(e, data) \<in> set (edges g)" by (rule map_of_SomeD)
  with assms(2) d(2) have "dict_get (length_attr data) 0 \<le> w"
    by (auto simp: weight_ge_length_def list_all_iff)
  with assms(2,3) show ?thesis
    unfolding g' weight_ge_length_def by (auto intro!: list_all_update)
qed

lemma obstacle_weights_nonneg: "0 \<le> dict_get (map_of obstacle_weights t) 600"
  by (simp add: obstacle_weights_def dict_get_def)

lemma penalty_nonneg:
  assumes "0 < dict_get (obstacleScore ob) 1" and "dst \<le> MAX_OBSTACLE_INFLUENCE"
  shows "0 \<le> obstacle_weight_of ob * (1 - dst / MAX_OBSTACLE_INFLUENCE)"
proof -
  have "0 \<le> obstacle_weight_of ob"
    using assms(1) obstacle_weights_nonneg
    by (simp add: obstacle_weight_of_def Let_def)
  moreover have "0 \<le> 1 - dst / MAX_OBSTACLE_INFLUENCE"
    using assms(2) by (simp add: MAX_OBSTACLE_INFLUENCE_def)
  ultimately show ?thesis by (rule mult_nonneg_nonneg)
qed

text \<open>
  Claim C3, amended. When the weight calculator returns on a graph whose edge lengths
  are not negative, with obstacles of positive score and with a slope threshold and a
  minimum width that are not negative (the defaults are not), every edge has a weight
  and the weight is at least the length.
\<close>

theorem weight_ge_length_valid_preferences:
  assumes "calculate_obstacle_weights ne g obstacles user_preferences = Inr g'"
    and "list_all (\<lambda>(e, data). 0 \<le> dict_get (length_attr data) 0) (edges g)"
    and "list_all (\<lambda>ob. 0 < dict_get (obstacleScore ob) 1) obstacles"
    and "0 \<le> dict_get (maxSlope (preferences_or_default user_preferences)) (8 / 100)"
    and "0 \<le> dict_get (minimumWidth (preferences_or_default user_preferences)) (12 / 10)"
  shows "weight_ge_length g'"
proof -
  from assms(1) obtain es where es: "weight_edges (preferences_or_default user_preferences) (edges g) = Inr es"
    and g': "g' = fold (apply_obstacle ne) obstacles (g\<lparr>edges := es\<rparr>)"
    by (auto simp: calculate_obstacle_weights_def split: sum.splits)
  have base: "weight_ge_length (g\<lparr>edges := es\<rparr>)"
    using weight_edges_ge_length [OF es assms(2,4,5)] by (simp add: weight_ge_length_def)
  show ?thesis
    unfolding g'
  proof (rule fold_apply_obstacle_preserves [where P = weight_ge_length, OF base])
    fix ob g0 e dst g1
    assume ob: "ob \<in> set obstacles" and g0: "weight_ge_length g0"
      and dst: "dst \<le> MAX_OBSTACLE_INFLUENCE"
      and add: "add_penalty e (obstacle_weight_of ob * (1 - dst / MAX_OBSTACLE_INFLUENCE)) g0 = Inr g1"
    from ob assms(3) have "0 < dict_get (obstacleScore ob) 1"
      by (simp add: list_all_iff)
    then have "0 \<le> obstacle_weight_of ob * (1 - dst / MAX_OBSTACLE_INFLUENCE)"
      using dst by (rule penalty_nonneg)
    with add g0 show "weight_ge_length g1" by (rule add_penalty_ge_length)
  qed
qed

theorem weight_ge_length_valid_preferences_witness:
  "calculate_obstacle_weights triangle_nearest triangle_graph [stairs_obstacle] None =
     Inr (triangle_graph\<lparr>edges := penalised_triangle_edges\<rparr>) \<and>
   list_all (\<lambda>(e, data). 0 \<le> dict_get (length_attr data) 0) (edges triangle_graph) \<and>
   list_all (\<lambda>ob. 0 < dict_get (obstacleScore ob) 1) [stairs_obstacle] \<and>
   0 \<le> dict_get (maxSlope (preferences_or_default None)) (8 / 100) \<and>
   0 \<le> dict_get (minimumWidth (preferences_or_default None)) (12 / 10) \<and>
   weight_ge_length (triangle_graph\<lparr>edges := penalised_triangle_edges\<rparr>)"
proof -
  have a: "list_all (\<lambda>(e, data). 0 \<le> dict_get (length_attr data) 0) (edges triangle_graph)"
    by (simp add: triangle_graph_def plain_edge_def dict_get_def)
  have b: "list_all (\<lambda>ob. 0 < dict_get (obstacleScore ob) 1) [stairs_obstacle]"
    by (simp add: stairs_obstacle_def dict_get_def)
  have c: "0 \<le> dict_get (maxSlope (preferences_or_default None)) (8 / 100)"
    by (simp add: preferences_or_default_def no_preferences_def dict_get_def)
  have d: "0 \<le> dict_get (minimumWidth (preferences_or_default None)) (12 / 10)"
    by (simp add: preferences_or_default_def no_preferences_def dict_get_def)
  from weight_ge_length_valid_preferences [OF calculate_triangle a b c d] calculate_triangle a b c d
  show ?thesis by simp
qed

text \<open>
  Claim C3 as stated fails: with the slope threshold -0.5 a flat edge of 10 meters gets
  the weight -190.
\<close>

theorem weight_below_length_counterexample:
  "calculate_obstacle_weights no_nearest single_edge_graph [] (Some negative_slope_preferences) =
     Inr (single_edge_graph\<lparr>edges :=
       [((1, 2, 0), (plain_edge 10)\<lparr>weight := Some (- 190), original_obstacle_score := Some 0\<rparr>)]\<rparr>) \<and>
   \<not> weight_ge_length (single_edge_graph\<lparr>edges :=
       [((1, 2, 0), (plain_edge 10)\<lparr>weight := Some (- 190), original_obstacle_score := Some 0\<rparr>)]\<rparr>)"
  by (simp add: calculate_obstacle_weights_def preferences_or_default_def single_edge_graph_def
      negative_slope_preferences_def edge_weight_def plain_edge_def dict_get_def Let_def
      weight_ge_length_def)

lemma weight_edges_formula:
  "weight_edges prefs es = Inr es' \<Longrightarrow>
     list_all2 (\<lambda>(e, data) (e', data'). e' = e \<and> weight data' = Some (base_weight_spec prefs data))
       es es'"
proof (induction es arbitrary: es')
  case Nil
  then show ?case by simp
next
  case (Cons a es)
  obtain e data where a: "a = (e, data)" by (cases a)
  from Cons.prems a obtain data' rest' where
    d: "edge_weight prefs data = Inr data'" and r: "weight_edges prefs es = Inr rest'"
    and es': "es' = (e, data') # rest'"
    by (auto split: sum.splits)
  from edge_weight_formula [OF d] Cons.IH [OF r] a es' show ?case by simp
qed

lemma edge_weight_spec_eq:
  "edge_weight_spec request data = base_weight_spec (preferences_or_default request) data"
  by (simp add: edge_weight_spec_def base_weight_spec_def max_slope_spec_def
      avoid_stairs_spec_def minimum_width_spec_def preferences_or_default_def
      no_preferences_def dict_get_def split: option.splits)

lemma calculate_no_obstacles:
  "calculate_obstacle_weights ne g [] user_preferences = Inr g0 \<longleftrightarrow>
   (\<exists>es. weight_edges (preferences_or_default user_preferences) (edges g) = Inr es \<and>
         g0 = g\<lparr>edges := es\<rparr>)"
  by (auto simp: calculate_obstacle_weights_def split: sum.splits)

text \<open>
  Claim C4. Before any penalty of the obstacle list is applied, that is, in the graph
  \<open>g0\<close> that the calculator returns for the empty obstacle list and on which the
  obstacle loop then runs, the weight of every edge is its length, plus 100 lengths when
  stairs are to be avoided and the edge has stairs, plus the width penalty below the
  minimum width, plus the slope penalty above the maximum slope; the three preferences are
  the caller's, and 0.08, true and 1.2 where the caller gives none.
\<close>

theorem base_weight_formula:
  assumes "calculate_obstacle_weights ne g obstacles user_preferences = Inr g'"
  shows "\<exists>g0. calculate_obstacle_weights ne g [] user_preferences = Inr g0 \<and>
           g' = fold (apply_obstacle ne) obstacles g0 \<and>
           list_all2 (\<lambda>(e, data) (e', data'). e' = e \<and>
               weight data' = Some (edge_weight_spec user_preferences data))
             (edges g) (edges g0)"
proof -
  from assms obtain es where es: "weight_edges (preferences_or_default user_preferences) (edges g) = Inr es"
    and g': "g' = fold (apply_obstacle ne) obstacles (g\<lparr>edges := es\<rparr>)"
    by (auto simp: calculate_obstacle_weights_def split: sum.splits)
  from es have "calculate_obstacle_weights ne g [] user_preferences = Inr (g\<lparr>edges := es\<rparr>)"
    by (simp add: calculate_no_obstacles)
  moreover from weight_edges_formula [OF es]
  have "list_all2 (\<lambda>(e, data) (e', data'). e' = e \<and>
      weight data' = Some (edge_weight_spec user_preferences data))
    (edges g) (edges (g\<lparr>edges := es\<rparr>))"
    by (simp add: edge_weight_spec_eq)
  ultimately show ?thesis using g' by blast
qed

lemma weight_edges_triangle_own:
  "weight_edges own_preferences (edges triangle_graph) = Inr own_weighted_triangle_edges"
  by (simp add: triangle_graph_def own_weighted_triangle_edges_def edge_weight_def
      own_preferences_def plain_edge_def dict_get_def Let_def)

lemma calculate_triangle_own:
  "calculate_obstacle_weights triangle_nearest triangle_graph [] (Some own_preferences) =
     Inr (triangle_graph\<lparr>edges := own_weighted_triangle_edges\<rparr>)"
  by (simp add: calculate_obstacle_weights_def preferences_or_default_def weight_edges_triangle_own)

theorem base_weight_formula_witness:
  "calculate_obstacle_weights triangle_nearest triangle_graph [] (Some own_preferences) =
     Inr (triangle_graph\<lparr>edges := own_weighted_triangle_edges\<rparr>) \<and>
   list_all2 (\<lambda>(e, data) (e', data'). e' = e \<and>
       weight data' = Some (edge_weight_spec (Some own_preferences) data))
     (edges triangle_graph) own_weighted_triangle_edges \<and>
   map (\<lambda>(e, data). weight data) own_weighted_triangle_edges = [Some 10, Some 100, Some 150] \<and>
   map (\<lambda>(e, data). edge_weight_spec (Some own_preferences) data) (edges triangle_graph) =
     [10, 100, 150] \<and>
   calculate_obstacle_weights triangle_nearest triangle_graph [stairs_obstacle] None =
     Inr (triangle_graph\<lparr>edges := penalised_triangle_edges\<rparr>) \<and>
   calculate_obstacle_weights triangle_nearest triangle_graph [] None =
     Inr (triangle_graph\<lparr>edges := weighted_triangle_edges\<rparr>) \<and>
   list_all2 (\<lambda>(e, data) (e', data'). e' = e \<and>
       weight data' = Some (edge_weight_spec None data))
     (edges triangle_graph) weighted_triangle_edges \<and>
   map (\<lambda>(e, data). weight data) weighted_triangle_edges = [Some 1010, Some 120, Some 330] \<and>
   map (\<lambda>(e, data). edge_weight_spec None data) (edges triangle_graph) = [1010, 120, 330]"
proof -
  from base_weight_formula [OF calculate_triangle_own] calculate_triangle_own
  have a: "list_all2 (\<lambda>(e, data) (e', data'). e' = e \<and>
      weight data' = Some (edge_weight_spec (Some own_preferences) data))
    (edges triangle_graph) own_weighted_triangle_edges"
    by auto
  from base_weight_formula [OF calculate_triangle] calculate_triangle_base
  have b: "list_all2 (\<lambda>(e, data) (e', data'). e' = e \<and>
      weight data' = Some (edge_weight_spec None data))
    (edges triangle_graph) weighted_triangle_edges"
    by auto
  have m1: "map (\<lambda>(e, data). weight data) own_weighted_triangle_edges =
      [Some 10, Some 100, Some 150]"
    by (simp add: own_weighted_triangle_edges_def)
  have m2: "map (\<lambda>(e, data). weight data) weighted_triangle_edges =
      [Some 1010, Some 120, Some 330]"
    by (simp add: weighted_triangle_edges_def)
  have s1: "map (\<lambda>(e, data). edge_weight_spec (Some own_preferences) data) (edges triangle_graph) =
      [10, 100, 150]"
    by (simp add: triangle_graph_def edge_weight_spec_def weight_formula_def grade_value_def
        max_slope_spec_def avoid_stairs_spec_def minimum_width_spec_def own_preferences_def
        plain_edge_def)
  have s2: "map (\<lambda>(e, data). edge_weight_spec None data) (edges triangle_graph) = [1010, 120, 330]"
    by (simp add: triangle_graph_def edge_weight_spec_def weight_formula_def grade_value_def
        max_slope_spec_def avoid_stairs_spec_def minimum_width_spec_def plain_edge_def)
  from calculate_triangle_own a m1 s1 calculate_triangle calculate_triangle_base b m2 s2
  show ?thesis by (intro conjI)
qed

section \<open>The penalty loop on a sequence of pairs\<close>

lemma total_penalty_Cons:
  "total_penalty ow ((e0, dst0) # rest) e =
     (if e0 = e \<and> dst0 \<le> 100 then ow * (1 - dst0 / 100) else 0) + total_penalty ow rest e"
  by (simp add: total_penalty_def)

lemma update_keys_present:
  "map_of al k = Some v \<Longrightarrow> fst ` set (AList.update k v' al) = fst ` set al"
  by (induction al) (auto split: if_splits)

lemma apply_penalties_effect:
  assumes "list_all (\<lambda>(e, data). weight data \<noteq> None) (edges g)"
    and "list_all (\<lambda>(e, dst). dst \<le> 100 \<longrightarrow> e \<in> fst ` set (edges g)) nearest"
    and "map_of (edges g) e = Some d"
  shows "\<exists>d' w. map_of (edges (apply_penalties ow nearest g)) e = Some d' \<and>
           weight d = Some w \<and> weight d' = Some (w + total_penalty ow nearest e) \<and>
           dict_get (obstacle_score d') 0 = dict_get (obstacle_score d) 0 + total_penalty ow nearest e"
  using assms
proof (induction nearest arbitrary: g d)
  case Nil
  from Nil.prems(3) have "(e, d) \<in> set (edges g)" by (rule map_of_SomeD)
  with Nil.prems(1) obtain w where "weight d = Some w"
    by (auto simp: list_all_iff)
  with Nil.prems(3) show ?case by (simp add: total_penalty_def)
next
  case (Cons a nearest)
  obtain e0 dst0 where a: "a = (e0, dst0)" by (cases a)
  from Cons.prems(2) a
  have rest: "list_all (\<lambda>(e, dst). dst \<le> 100 \<longrightarrow> e \<in> fst ` set (edges g)) nearest"
    and here: "dst0 \<le> 100 \<longrightarrow> e0 \<in> fst ` set (edges g)"
    by simp_all
  show ?case
  proof (cases "dst0 \<le> 100")
    case False
    from Cons.IH [OF Cons.prems(1) rest Cons.prems(3)] False a show ?thesis
      by (simp add: total_penalty_Cons MAX_OBSTACLE_INFLUENCE_def)
  next
    case True
    with here have "e0 \<in> fst ` set (edges g)" by simp
    then obtain d0 where d0: "map_of (edges g) e0 = Some d0"
      by (metis domD dom_map_of_conv_image_fst)
    then have "(e0, d0) \<in> set (edges g)" by (rule map_of_SomeD)
    with Cons.prems(1) obtain w0 where w0: "weight d0 = Some w0"
      by (auto simp: list_all_iff)
    define p where "p = ow * (1 - dst0 / 100)"
    define d0' where "d0' = d0\<lparr>weight := Some (w0 + p),
      obstacle_score := Some (dict_get (obstacle_score d0) 0 + p)\<rparr>"
    define g1 where "g1 = g\<lparr>edges := AList.update e0 d0' (edges g)\<rparr>"
    have add: "add_penalty e0 p g = Inr g1"
      using d0 w0 by (simp add: add_penalty_def g1_def d0'_def)
    have step: "apply_penalties ow (a # nearest) g = apply_penalties ow nearest g1"
      using a True add by (simp add: MAX_OBSTACLE_INFLUENCE_def p_def Let_def)
    have present1: "list_all (\<lambda>(e, data). weight data \<noteq> None) (edges g1)"
      using Cons.prems(1) by (auto simp: g1_def d0'_def intro!: list_all_update)
    have keys: "fst ` set (edges g1) = fst ` set (edges g)"
      unfolding g1_def using update_keys_present [OF d0] by simp
    have rest1: "list_all (\<lambda>(e, dst). dst \<le> 100 \<longrightarrow> e \<in> fst ` set (edges g1)) nearest"
      using rest by (simp add: keys)
    have look: "map_of (edges g1) e = Some (if e = e0 then d0' else d)"
      using Cons.prems(3) by (simp add: g1_def update_conv')
    from Cons.IH [OF present1 rest1 look]
    obtain d' w1 where d': "map_of (edges (apply_penalties ow nearest g1)) e = Some d'"
      and w1: "weight (if e = e0 then d0' else d) = Some w1"
      and w': "weight d' = Some (w1 + total_penalty ow nearest e)"
      and s': "dict_get (obstacle_score d') 0 =
               dict_get (obstacle_score (if e = e0 then d0' else d)) 0 + total_penalty ow nearest e"
      by blast
    show ?thesis
    proof (cases "e = e0")
      case True
      with d0 Cons.prems(3) have dd: "d = d0" by simp
      from True w1 have "w1 = w0 + p" by (simp add: d0'_def)
      moreover from True have "dict_get (obstacle_score (if e = e0 then d0' else d)) 0 =
          dict_get (obstacle_score d0) 0 + p"
        by (simp add: d0'_def dict_get_def)
      moreover have "total_penalty ow (a # nearest) e = p + total_penalty ow nearest e"
        using a True \<open>dst0 \<le> 100\<close> by (simp add: total_penalty_Cons p_def)
      ultimately show ?thesis
        using d' w' s' w0 dd step by simp
    next
      case False
      then have "total_penalty ow (a # nearest) e = total_penalty ow nearest e"
        using a by (auto simp: total_penalty_Cons)
      with False d' w1 w' s' step show ?thesis by simp
    qed
  qed
qed

lemma weight_edges_present:
  assumes "weight_edges prefs es = Inr es'"
  shows "list_all (\<lambda>(e, data). weight data \<noteq> None) es'"
proof -
  from weight_edges_formula [OF assms]
  show ?thesis
    by (induction rule: list_all2_induct) auto
qed

lemma add_penalty_present:
  assumes "add_penalty e p g = Inr g'"
    and "list_all (\<lambda>(e, data). weight data \<noteq> None) (edges g)"
  shows "list_all (\<lambda>(e, data). weight data \<noteq> None) (edges g')"
  using assms by (auto simp: add_penalty_def split: option.splits intro!: list_all_update)

lemma calculate_present:
  assumes "calculate_obstacle_weights ne g obstacles user_preferences = Inr g'"
  shows "list_all (\<lambda>(e, data). weight data \<noteq> None) (edges g')"
proof -
  from assms obtain es where es: "weight_edges (preferences_or_default user_preferences) (edges g) = Inr es"
    and g': "g' = fold (apply_obstacle ne) obstacles (g\<lparr>edges := es\<rparr>)"
    by (auto simp: calculate_obstacle_weights_def split: sum.splits)
  have base: "list_all (\<lambda>(e, data). weight data \<noteq> None) (edges (g\<lparr>edges := es\<rparr>))"
    using weight_edges_present [OF es] by simp
  show ?thesis
    unfolding g'
    by (rule fold_apply_obstacle_preserves
          [where P = "\<lambda>g. list_all (\<lambda>(e, data). weight data \<noteq> None) (edges g)", OF base])
       (rule add_penalty_present)
qed

lemma calculate_snoc:
  assumes "calculate_obstacle_weights ne g obstacles user_preferences = Inr g1"
  shows "calculate_obstacle_weights ne g (obstacles @ [ob]) user_preferences =
         Inr (apply_obstacle ne ob g1)"
  using assms by (auto simp: calculate_obstacle_weights_def split: sum.splits)

text \<open>
  What the loop of lines 128 to 138 does when the lookup hands it a sequence of pairs of
  an edge of the graph and a distance: the graph \<open>g1\<close> is the one the calculator has
  built from the obstacles before, and every edge gets
  \<open>obstacle_weight * (1 - distance / 100)\<close> added to its weight and to its obstacle score
  for each pair that names it within 100 meters, and nothing otherwise.
\<close>

lemma pairs_penalty_added:
  assumes "calculate_obstacle_weights ne g obstacles user_preferences = Inr g1"
    and "\<not> (obstacle_lat ob = 0 \<and> obstacle_lng ob = 0)"
    and "ne g1 (obstacle_lng ob) (obstacle_lat ob) = Inr nearest"
    and "list_all (\<lambda>(e, dst). dst \<le> 100 \<longrightarrow> e \<in> fst ` set (edges g1)) nearest"
  shows "calculate_obstacle_weights ne g (obstacles @ [ob]) user_preferences =
           Inr (apply_obstacle ne ob g1) \<and>
         (\<forall>e d. map_of (edges g1) e = Some d \<longrightarrow>
            (\<exists>d' w. map_of (edges (apply_obstacle ne ob g1)) e = Some d' \<and>
               weight d = Some w \<and>
               weight d' = Some (w + total_penalty (obstacle_weight_of ob) nearest e) \<and>
               dict_get (obstacle_score d') 0 =
                 dict_get (obstacle_score d) 0 + total_penalty (obstacle_weight_of ob) nearest e)) \<and>
         obstacle_weight_of ob =
           dict_get (map_of obstacle_weights (dict_get (obstacleType ob) ''OTHER'')) 600 *
           dict_get (obstacleScore ob) 1 \<and>
         (obstacleType ob = Some ''STAIRS'' \<and> obstacleScore ob = Some 1 \<longrightarrow>
            total_penalty (obstacle_weight_of ob) [(e0, 50)] e0 = 500) \<and>
         (100 \<le> dst \<longrightarrow> total_penalty (obstacle_weight_of ob) [(e0, dst)] e0 = 0)"
proof -
  have run: "apply_obstacle ne ob g1 = apply_penalties (obstacle_weight_of ob) nearest g1"
    using assms(2,3) by (auto simp: apply_obstacle_def Let_def)
  have present: "list_all (\<lambda>(e, data). weight data \<noteq> None) (edges g1)"
    using assms(1) by (rule calculate_present)
  have effect: "\<exists>d' w. map_of (edges (apply_obstacle ne ob g1)) e = Some d' \<and>
      weight d = Some w \<and>
      weight d' = Some (w + total_penalty (obstacle_weight_of ob) nearest e) \<and>
      dict_get (obstacle_score d') 0 =
        dict_get (obstacle_score d) 0 + total_penalty (obstacle_weight_of ob) nearest e"
    if "map_of (edges g1) e = Some d" for e d
    unfolding run using present assms(4) that by (rule apply_penalties_effect)
  have table: "obstacle_weight_of ob =
      dict_get (map_of obstacle_weights (dict_get (obstacleType ob) ''OTHER'')) 600 *
      dict_get (obstacleScore ob) 1"
    by (simp add: obstacle_weight_of_def Let_def)
  have stairs50: "total_penalty (obstacle_weight_of ob) [(e0, 50)] e0 = 500"
    if "obstacleType ob = Some ''STAIRS''" "obstacleScore ob = Some 1"
    using that by (simp add: table total_penalty_def obstacle_weights_def dict_get_def)
  have far: "total_penalty (obstacle_weight_of ob) [(e0, dst)] e0 = 0" if "100 \<le> dst"
    using that by (cases "dst = 100") (simp_all add: total_penalty_def)
  from calculate_snoc [OF assms(1)] effect table stairs50 far show ?thesis
    by blast
qed

lemma apply_obstacle_triangle:
  "apply_obstacle triangle_nearest stairs_obstacle (triangle_graph\<lparr>edges := weighted_triangle_edges\<rparr>) =
     triangle_graph\<lparr>edges := penalised_triangle_edges\<rparr>"
  by (simp add: apply_obstacle_def obstacle_weight_of_def obstacle_weights_def obstacle_lat_def
      obstacle_lng_def stairs_obstacle_def triangle_nearest_def add_penalty_def
      MAX_OBSTACLE_INFLUENCE_def weighted_triangle_edges_def penalised_triangle_edges_def
      plain_edge_def dict_get_def Let_def)

lemma pairs_penalty_added_example:
  "calculate_obstacle_weights triangle_nearest triangle_graph [] None =
     Inr (triangle_graph\<lparr>edges := weighted_triangle_edges\<rparr>) \<and>
   \<not> (obstacle_lat stairs_obstacle = 0 \<and> obstacle_lng stairs_obstacle = 0) \<and>
   triangle_nearest (triangle_graph\<lparr>edges := weighted_triangle_edges\<rparr>)
       (obstacle_lng stairs_obstacle) (obstacle_lat stairs_obstacle) =
     Inr [((1, 2, 0), 50), ((2, 3, 0), 100), ((3, 1, 0), 150)] \<and>
   calculate_obstacle_weights triangle_nearest triangle_graph ([] @ [stairs_obstacle]) None =
     Inr (triangle_graph\<lparr>edges := penalised_triangle_edges\<rparr>) \<and>
   total_penalty (obstacle_weight_of stairs_obstacle)
       [((1, 2, 0), 50), ((2, 3, 0), 100), ((3, 1, 0), 150)] (1, 2, 0) = 500 \<and>
   map (\<lambda>(e, data). (weight data, obstacle_score data)) weighted_triangle_edges =
     [(Some 1010, Some 100), (Some 120, Some 0), (Some 330, Some 12)] \<and>
   map (\<lambda>(e, data). (weight data, obstacle_score data)) penalised_triangle_edges =
     [(Some 1510, Some 600), (Some 120, Some 0), (Some 330, Some 12)]"
proof -
  let ?g1 = "triangle_graph\<lparr>edges := weighted_triangle_edges\<rparr>"
  let ?near = "[((1, 2, 0), 50), ((2, 3, 0), 100), ((3, 1, 0), 150)] :: (edge_id \<times> real) list"
  have h2: "\<not> (obstacle_lat stairs_obstacle = 0 \<and> obstacle_lng stairs_obstacle = 0)"
    by (simp add: obstacle_lat_def obstacle_lng_def stairs_obstacle_def dict_get_def)
  have h3: "triangle_nearest ?g1 (obstacle_lng stairs_obstacle) (obstacle_lat stairs_obstacle) =
      Inr ?near"
    by (simp add: triangle_nearest_def)
  have h4: "list_all (\<lambda>(e, dst). dst \<le> 100 \<longrightarrow> e \<in> fst ` set (edges ?g1)) ?near"
    by (simp add: weighted_triangle_edges_def)
  have t: "total_penalty (obstacle_weight_of stairs_obstacle) ?near (1, 2, 0) = 500"
    by (simp add: total_penalty_def obstacle_weight_of_def obstacle_weights_def
        stairs_obstacle_def dict_get_def)
  have m1: "map (\<lambda>(e, data). (weight data, obstacle_score data)) weighted_triangle_edges =
      [(Some 1010, Some 100), (Some 120, Some 0), (Some 330, Some 12)]"
    by (simp add: weighted_triangle_edges_def plain_edge_def)
  have m2: "map (\<lambda>(e, data). (weight data, obstacle_score data)) penalised_triangle_edges =
      [(Some 1510, Some 600), (Some 120, Some 0), (Some 330, Some 12)]"
    by (simp add: penalised_triangle_edges_def plain_edge_def)
  from pairs_penalty_added [OF calculate_triangle_base h2 h3 h4, of "(1, 2, 0)" 50]
  have "calculate_obstacle_weights triangle_nearest triangle_graph ([] @ [stairs_obstacle]) None =
      Inr (apply_obstacle triangle_nearest stairs_obstacle ?g1)"
    by blast
  with calculate_triangle_base h2 h3 t m1 m2 show ?thesis
    by (simp only: apply_obstacle_triangle) simp
qed

section \<open>The lookup of the library adds no penalty\<close>

lemma apply_obstacle_scalar: "apply_obstacle (scalar_nearest_edges nearest_edge) ob g = g"
  by (simp add: apply_obstacle_def scalar_nearest_edges_def Let_def split: sum.splits prod.splits)

lemma fold_apply_obstacle_scalar:
  "fold (apply_obstacle (scalar_nearest_edges nearest_edge)) obstacles g = g"
  by (induction obstacles) (simp_all add: apply_obstacle_scalar)

text \<open>
  Claim C1 fails on the code. Every obstacle leaves the graph as it is: at (0, 0) it is
  skipped, and elsewhere the pair that the library returns for its point makes the loop
  of line 128 raise before a penalty is added. The calculator returns what it returns for
  the empty obstacle list. The stairs reported 50 meters from the edge from 1 to 2 of the
  triangle are looked up at their place, the edge is found, and its weight stays 1010 and
  its obstacle score 100; the claim adds 500 to both.
\<close>

theorem no_penalty_is_added:
  "apply_obstacle (scalar_nearest_edges nearest_edge) ob g = g \<and>
   calculate_obstacle_weights (scalar_nearest_edges nearest_edge) g obstacles user_preferences =
     calculate_obstacle_weights (scalar_nearest_edges nearest_edge) g [] user_preferences \<and>
   obstacle_lat stairs_obstacle = 5 / 10000 \<and>
   obstacle_lng stairs_obstacle = 1 / 10000 \<and>
   obstacle_weight_of stairs_obstacle = 1000 \<and>
   triangle_nearest_edge (triangle_graph\<lparr>edges := weighted_triangle_edges\<rparr>)
     (obstacle_lng stairs_obstacle) (obstacle_lat stairs_obstacle) = Inr ((1, 2, 0), 50) \<and>
   scalar_nearest_edges triangle_nearest_edge (triangle_graph\<lparr>edges := weighted_triangle_edges\<rparr>)
     (obstacle_lng stairs_obstacle) (obstacle_lat stairs_obstacle) = Inl ValueError \<and>
   calculate_obstacle_weights (scalar_nearest_edges triangle_nearest_edge) triangle_graph
     [stairs_obstacle] None = Inr (triangle_graph\<lparr>edges := weighted_triangle_edges\<rparr>) \<and>
   map (\<lambda>(e, data). (weight data, obstacle_score data)) weighted_triangle_edges =
     [(Some 1010, Some 100), (Some 120, Some 0), (Some 330, Some 12)] \<and>
   total_penalty (obstacle_weight_of stairs_obstacle) [((1, 2, 0), 50)] (1, 2, 0) = 500"
proof -
  have a: "calculate_obstacle_weights (scalar_nearest_edges nearest_edge) g obstacles user_preferences =
      calculate_obstacle_weights (scalar_nearest_edges nearest_edge) g [] user_preferences"
    by (simp add: calculate_obstacle_weights_def fold_apply_obstacle_scalar split: sum.splits)
  have lat: "obstacle_lat stairs_obstacle = 5 / 10000"
    by (simp add: obstacle_lat_def stairs_obstacle_def dict_get_def)
  have lng: "obstacle_lng stairs_obstacle = 1 / 10000"
    by (simp add: obstacle_lng_def stairs_obstacle_def dict_get_def)
  have w: "obstacle_weight_of stairs_obstacle = 1000"
    by (simp add: obstacle_weight_of_def obstacle_weights_def stairs_obstacle_def dict_get_def)
  have f: "triangle_nearest_edge (triangle_graph\<lparr>edges := weighted_triangle_edges\<rparr>)
      (obstacle_lng stairs_obstacle) (obstacle_lat stairs_obstacle) = Inr ((1, 2, 0), 50)"
    unfolding lat lng by (simp add: triangle_nearest_edge_def)
  have v: "scalar_nearest_edges triangle_nearest_edge (triangle_graph\<lparr>edges := weighted_triangle_edges\<rparr>)
      (obstacle_lng stairs_obstacle) (obstacle_lat stairs_obstacle) = Inl ValueError"
    unfolding scalar_nearest_edges_def f by simp
  have c: "calculate_obstacle_weights (scalar_nearest_edges triangle_nearest_edge) triangle_graph
      [stairs_obstacle] None = Inr (triangle_graph\<lparr>edges := weighted_triangle_edges\<rparr>)"
    by (simp add: calculate_obstacle_weights_def preferences_or_default_def weight_edges_triangle
        apply_obstacle_scalar)
  have m: "map (\<lambda>(e, data). (weight data, obstacle_score data)) weighted_triangle_edges =
      [(Some 1010, Some 100), (Some 120, Some 0), (Some 330, Some 12)]"
    by (simp add: weighted_triangle_edges_def plain_edge_def)
  have t: "total_penalty (obstacle_weight_of stairs_obstacle) [((1, 2, 0), 50)] (1, 2, 0) = 500"
    unfolding w by (simp add: total_penalty_def)
  from apply_obstacle_scalar a lat lng w f v c m t show ?thesis by (intro conjI)
qed

section \<open>The slope score of the enrichment\<close>

lemma add_score_grade: "grade (add_score n data) = grade data"
  by (simp add: add_score_def)

lemma apply_tags_grade: "grade (apply_tags pyfloat tgs data) = grade data"
  by (simp add: apply_tags_def Let_def add_score_grade split: option.splits)

lemma apply_tags_score:
  "obstacle_score data = Some s \<Longrightarrow> \<exists>s'. obstacle_score (apply_tags pyfloat tgs data) = Some s'"
  by (auto simp: apply_tags_def Let_def add_score_def split: option.splits)

lemma init_and_tags_grade: "grade (init_and_tags pyfloat data) = grade data"
  by (simp add: init_and_tags_def Let_def apply_tags_grade split: option.splits)

lemma init_and_tags_score: "\<exists>s. obstacle_score (init_and_tags pyfloat data) = Some s"
proof (cases "tags data")
  case None
  then show ?thesis by (simp add: init_and_tags_def)
next
  case (Some tgs)
  let ?d1 = "data\<lparr>stairs := Some ''no'', width := Some 2, surface := Some ''unknown'',
    lit := Some ''unknown'', obstacle_score := Some 0\<rparr>"
  have "obstacle_score ?d1 = Some 0" by simp
  from apply_tags_score [OF this, of pyfloat tgs] Some show ?thesis
    by (simp add: init_and_tags_def)
qed

lemma add_slope_score_Num:
  assumes "grade data = Some (Num gr)" and "obstacle_score data = Some s"
  shows "obstacle_score (add_slope_score data) =
           Some (s + real_of_int (if \<bar>gr\<bar> > fl (8 / 100)
                                  then min 100 (py_int (fl (\<bar>gr\<bar> * 100))) else 0))"
  using assms by (simp add: add_slope_score_def add_score_def dict_get_def Let_def)

text \<open>
  What the enrichment does with the grade of an edge: above the double 0.08 it adds the
  truncated double product of the grade and 100, capped at 100.
\<close>

lemma enrich_edge_slope:
  assumes "grade data = Some (Num gr)"
  shows "\<exists>s. obstacle_score (init_and_tags pyfloat data) = Some s \<and>
           obstacle_score (enrich_edge pyfloat data) =
             Some (s + real_of_int (if \<bar>gr\<bar> > fl (8 / 100)
                                    then min 100 (py_int (fl (\<bar>gr\<bar> * 100))) else 0))"
proof -
  from init_and_tags_score obtain s where s: "obstacle_score (init_and_tags pyfloat data) = Some s"
    by blast
  from assms have "grade (init_and_tags pyfloat data) = Some (Num gr)"
    by (simp add: init_and_tags_grade)
  from add_slope_score_Num [OF this s] s show ?thesis
    by (simp add: enrich_edge_def)
qed

text \<open>\<^verbatim>\<open>create_graph\<close> enriches every edge of the graph that the elevation calls return.\<close>

lemma create_graph_enriches:
  assumes "add_elevation g = Inr g1"
  shows "create_graph pyfloat (Inr g) add_elevation =
           Some (g1\<lparr>edges := map (\<lambda>(e, data). (e, enrich_edge pyfloat data)) (edges g1)\<rparr>)"
  using assms by (simp add: create_graph_def)

text \<open>The grades of the examples of the specification: 0.12, 0.95 and 1.5.\<close>

lemma slope_score_examples:
  "obstacle_score (enrich_edge pyfloat (raw_edge 10 (Some (Num (fl (12 / 100)))) None)) = Some 12 \<and>
   obstacle_score (enrich_edge pyfloat (raw_edge 10 (Some (Num (fl (95 / 100)))) None)) = Some 95 \<and>
   obstacle_score (enrich_edge pyfloat (raw_edge 10 (Some (Num (15 / 10))) None)) = Some 100 \<and>
   obstacle_score (enrich_edge pyfloat (raw_edge 10 (Some (Num (fl (8 / 100)))) None)) = Some 0"
proof -
  have a: "fl (8 / 100) < fl (12 / 100)" "fl (8 / 100) < fl (95 / 100)" "fl (8 / 100) < 15 / 10"
    unfolding fl_008 fl_012 fl_095 by simp_all
  have b: "0 \<le> fl (12 / 100)" "0 \<le> fl (95 / 100)" "0 \<le> fl (8 / 100)"
    unfolding fl_008 fl_012 fl_095 by simp_all
  have t: "py_int (fl (fl (12 / 100) * 100)) = 12" "py_int (fl (fl (95 / 100) * 100)) = 95"
    "py_int (fl (15 / 10 * 100)) = 150"
    unfolding fl_012_times_100 fl_095_times_100 fl_15_times_100 by (simp_all add: py_int_def)
  show ?thesis
    using a b t
    by (simp add: enrich_edge_def init_and_tags_def raw_edge_def add_slope_score_def
        add_score_def dict_get_def Let_def abs_of_nonneg)
qed


section \<open>The width tag is never read as centimeters\<close>

lemma replace_single: "replace [x] [] s = filter (\<lambda>c. c \<noteq> x) s"
  by (induction s) auto

lemma replace_absent:
  "old \<noteq> [] \<Longrightarrow> hd old \<notin> set s \<Longrightarrow> replace old new s = s"
proof (induction s)
  case Nil
  then show ?case by simp
next
  case (Cons c cs)
  from Cons.prems have "take (length old) (c # cs) \<noteq> old"
    by (cases old) auto
  with Cons show ?case by simp
qed

lemma set_strip: "set (strip s) \<subseteq> set s"
proof
  fix c
  assume "c \<in> set (strip s)"
  then have "c \<in> set (dropWhile is_space (rev (dropWhile is_space s)))"
    by (simp add: strip_def)
  then have "c \<in> set (rev (dropWhile is_space s))" by (rule set_dropWhileD)
  then have "c \<in> set (dropWhile is_space s)" by simp
  then show "c \<in> set s" by (rule set_dropWhileD)
qed

lemma substring_in_set: "substring_in sub s \<Longrightarrow> set sub \<subseteq> set s"
proof (induction s)
  case Nil
  then show ?case by simp
next
  case (Cons c cs)
  show ?case
  proof (cases "take (length sub) (c # cs) = sub")
    case True
    have "set (take (length sub) (c # cs)) \<subseteq> set (c # cs)" by (rule set_take_subset)
    with True show ?thesis by simp
  next
    case False
    with Cons show ?thesis by auto
  qed
qed

lemma cleaned_width_str:
  "strip (replace ''meters'' [] (replace ''m'' [] tag)) = strip (filter (\<lambda>c. c \<noteq> CHR ''m'') tag)"
  by (simp add: replace_single replace_absent)

lemma cm_never_found:
  "\<not> substring_in ''cm'' (strip (filter (\<lambda>c. c \<noteq> CHR ''m'') tag))"
proof
  assume "substring_in ''cm'' (strip (filter (\<lambda>c. c \<noteq> CHR ''m'') tag))"
  then have "set ''cm'' \<subseteq> set (strip (filter (\<lambda>c. c \<noteq> CHR ''m'') tag))"
    by (rule substring_in_set)
  also have "\<dots> \<subseteq> set (filter (\<lambda>c. c \<noteq> CHR ''m'') tag)" by (rule set_strip)
  finally show False by simp
qed

text \<open>
  Claim C2 fails on the code. Line 80 removes every letter \<open>m\<close> before line 81 looks
  for \<open>cm\<close>, so the branch that divides by 100 is never taken: the width is what
  \<^verbatim>\<open>float\<close> makes of the tag without its letters \<open>m\<close>, stripped, or 2.0. The tag
  \<open>250cm\<close> becomes \<open>250c\<close>, which is no number, and the width is 2.0 and not 2.5
  (\<open>2.5 meters\<close> gives 2.0 as well); \<open>2.5 m\<close> gives 2.5 and \<open>garbage\<close> gives 2.0.
\<close>

theorem parse_width_never_divides:
  "parse_width pyfloat tag =
     (case pyfloat (strip (filter (\<lambda>c. c \<noteq> CHR ''m'') tag)) of None \<Rightarrow> 2 | Some v \<Rightarrow> v) \<and>
   strip (filter (\<lambda>c. c \<noteq> CHR ''m'') ''250cm'') = ''250c'' \<and>
   float_plain ''250c'' = None \<and>
   parse_width float_plain ''250cm'' = 2 \<and>
   parse_width float_plain ''2.5 meters'' = 2 \<and>
   parse_width float_plain ''2.5 m'' = 5 / 2 \<and>
   parse_width float_plain ''garbage'' = 2"
proof -
  have general: "parse_width pf t =
      (case pf (strip (filter (\<lambda>c. c \<noteq> CHR ''m'') t)) of None \<Rightarrow> 2 | Some v \<Rightarrow> v)" for pf t
    by (simp add: parse_width_def cleaned_width_str cm_never_found)
  have a: "strip (filter (\<lambda>c. c \<noteq> CHR ''m'') ''250cm'') = ''250c''"
    by (simp add: strip_def is_space_def)
  have b: "float_plain ''250c'' = None"
    by (simp add: float_plain_def strip_def is_space_def digit_val_def)
  have c: "parse_width float_plain ''250cm'' = 2"
    by (simp add: general float_plain_def strip_def is_space_def digit_val_def)
  have d: "parse_width float_plain ''2.5 meters'' = 2"
    by (simp add: general float_plain_def strip_def is_space_def digit_val_def)
  have e: "parse_width float_plain ''2.5 m'' = 5 / 2"
    by (simp add: general float_plain_def strip_def is_space_def digit_val_def)
  have f: "parse_width float_plain ''garbage'' = 2"
    by (simp add: general float_plain_def strip_def is_space_def digit_val_def)
  from general a b c d e f show ?thesis by simp
qed

section \<open>The duration and the failures of the route planner\<close>

lemma plan_route_Inr:
  assumes "plan_route nn sp g origin destination = Inr r"
  shows "\<exists>origin_node dest_node path l.
           nn g (snd origin) (fst origin) = Inr origin_node \<and>
           nn g (snd destination) (fst destination) = Inr dest_node \<and>
           sp g origin_node dest_node = Inr path \<and>
           route_stats g path 0 False = Inr (l, hasObstacles r) \<and>
           duration r = duration_str l"
  using assms
  by (auto simp: plan_route_def split: sum.splits list.splits prod.splits)

lemma find_accessible_route_Some:
  "find_accessible_route nn sp g origin destination = Some r \<longleftrightarrow>
   plan_route nn sp g origin destination = Inr r"
  by (simp add: find_accessible_route_def split: sum.splits)

lemma seconds_100: "fl (100 / fl (14 / 10)) = 5026338869833143 / 2 ^ 46"
  unfolding fl_14 by (subst fl_eval [where n = 46]) (simp_all add: round_half_even_def)

lemma minutes_100: "fl (5026338869833143 / 2 ^ 46 / 60) = 5361428127822019 / 2 ^ 52"
  by (subst fl_eval [where n = 52]) (simp_all add: round_half_even_def)

lemma seconds_1400: "fl (1400 / fl (14 / 10)) = 8796093022208001 / 2 ^ 43"
  unfolding fl_14 by (subst fl_eval [where n = 43]) (simp_all add: round_half_even_def)

lemma minutes_1400: "fl (8796093022208001 / 2 ^ 43 / 60) = 4691249611844267 / 2 ^ 48"
  by (subst fl_eval [where n = 48]) (simp_all add: round_half_even_def)

lemma seconds_5040: "fl (5040 / fl (14 / 10)) = 7916483719987201 / 2 ^ 41"
  unfolding fl_14 by (subst fl_eval [where n = 41]) (simp_all add: round_half_even_def)

lemma minutes_5040: "fl (7916483719987201 / 2 ^ 41 / 60) = 8444249301319681 / 2 ^ 47"
  by (subst fl_eval [where n = 47]) (simp_all add: round_half_even_def)

lemma hours_61: "fl (real_of_int 61 / 60) = 4578659621160004 / 2 ^ 52"
  by (subst fl_eval [where n = 52]) (simp_all add: round_half_even_def)

lemma duration_100: "duration_str 100 = ''2 mins''"
proof -
  have "\<lceil>(5361428127822019 :: real) / 2 ^ 52\<rceil> = 2"
    by (simp add: ceiling_eq_iff)
  then show ?thesis
    unfolding duration_str_def DEFAULT_WALKING_SPEED_def Let_def seconds_100 minutes_100
    by (simp add: str_int_def str_nat.simps)
qed

lemma duration_1400: "duration_str 1400 = ''17 mins''"
proof -
  have "\<lceil>(4691249611844267 :: real) / 2 ^ 48\<rceil> = 17"
    by (simp add: ceiling_eq_iff)
  then show ?thesis
    unfolding duration_str_def DEFAULT_WALKING_SPEED_def Let_def seconds_1400 minutes_1400
    by (simp add: str_int_def str_nat.simps)
qed

lemma duration_5040: "duration_str 5040 = ''1 hours 1 mins''"
proof -
  have c: "\<lceil>(8444249301319681 :: real) / 2 ^ 47\<rceil> = 61"
    by (simp add: ceiling_eq_iff)
  have f: "\<lfloor>(4578659621160004 :: real) / 2 ^ 52\<rfloor> = 1"
    by (simp add: floor_eq_iff)
  show ?thesis
    unfolding duration_str_def DEFAULT_WALKING_SPEED_def Let_def seconds_5040 minutes_5040 c
      hours_61 f
    by (simp add: str_int_def str_nat.simps)
qed

text \<open>The street of 1400 meters: 1000 seconds, 17 minutes.\<close>

lemma street_route_found:
  "find_accessible_route street_nearest_nodes street_shortest_path street_graph
     (0, 0) (12 / 1000, 0) = Some street_route"
  using duration_1400
  by (simp add: find_accessible_route_def plan_route_def street_nearest_nodes_def
      street_shortest_path_def street_graph_def street_route_def node_at_def plain_edge_def
      get_edge_data_def dict_get_def str_int_def str_nat.simps py_round_def py_round2_def Let_def)

text \<open>
  Claim C7 fails on the code. The duration is computed from the length that the loop of
  lines 174 to 180 sums, and that loop reads the edge with key 0 between two nodes of the
  path (the defect of claim C5). The route from 1 to 2 takes the edge with key 1, 10
  meters long, which is one minute; the loop sums the 100 meters of the edge with key 0
  and the route is reported with \<open>2 mins\<close>. The divisions are also divisions of doubles:
  a route of 5040 meters takes 3600 seconds, 60 minutes, \<open>1 hours 0 mins\<close>, and the code
  reports \<open>1 hours 1 mins\<close>.
\<close>

theorem duration_of_wrong_length:
  "map_option duration
     (find_accessible_route parallel_nearest_nodes parallel_shortest_path weighted_parallel_graph
        (0, 0) (1 / 1000, 0)) = Some ''2 mins'' \<and>
   route_stats weighted_parallel_graph [1, 2] 0 False = Inr (100, False) \<and>
   map_option (\<lambda>(e, data). (e, weight data, length_attr data))
     (cheapest_edge weighted_parallel_graph 1 2) = Some ((1, 2, 1), Some 10, Some 10) \<and>
   minutes_spec 10 = 1 \<and>
   format_minutes_spec (minutes_spec 10) = ''1 mins'' \<and>
   route_stats long_graph [1, 2] 0 False = Inr (5040, True) \<and>
   map_option duration
     (find_accessible_route one_way_nearest_nodes one_way_shortest_path long_graph
        (0, 0) (45 / 1000, 0)) = Some ''1 hours 1 mins'' \<and>
   duration_str 5040 = ''1 hours 1 mins'' \<and>
   minutes_spec 5040 = 60 \<and>
   format_minutes_spec (minutes_spec 5040) = ''1 hours 0 mins''"
proof -
  have a: "map_option duration
      (find_accessible_route parallel_nearest_nodes parallel_shortest_path weighted_parallel_graph
         (0, 0) (1 / 1000, 0)) = Some ''2 mins''"
    using duration_100
    by (simp add: find_accessible_route_def plan_route_def parallel_nearest_nodes_def
        parallel_shortest_path_def weighted_parallel_graph_def node_at_def plain_edge_def
        get_edge_data_def dict_get_def)
  have b: "route_stats weighted_parallel_graph [1, 2] 0 False = Inr (100, False)"
    by (simp add: get_edge_data_def weighted_parallel_graph_def plain_edge_def dict_get_def)
  have c: "map_option (\<lambda>(e, data). (e, weight data, length_attr data))
      (cheapest_edge weighted_parallel_graph 1 2) = Some ((1, 2, 1), Some 10, Some 10)"
    by (simp add: cheapest_edge_def parallel_edges_def weighted_parallel_graph_def
        plain_edge_def dict_get_def)
  have d: "minutes_spec 10 = 1"
    by (simp add: minutes_spec_def ceiling_eq_iff)
  have e: "format_minutes_spec (minutes_spec 10) = ''1 mins''"
    unfolding d by (simp add: format_minutes_spec_def str_int_def str_nat.simps)
  have f: "minutes_spec 5040 = 60"
    by (simp add: minutes_spec_def)
  have g: "format_minutes_spec (minutes_spec 5040) = ''1 hours 0 mins''"
    unfolding f by (simp add: format_minutes_spec_def str_int_def str_nat.simps)
  have h: "route_stats long_graph [1, 2] 0 False = Inr (5040, True)"
    by (simp add: get_edge_data_def long_graph_def plain_edge_def dict_get_def)
  have i: "map_option duration
      (find_accessible_route one_way_nearest_nodes one_way_shortest_path long_graph
         (0, 0) (45 / 1000, 0)) = Some ''1 hours 1 mins''"
    using duration_5040
    by (simp add: find_accessible_route_def plan_route_def one_way_nearest_nodes_def
        one_way_shortest_path_def long_graph_def node_at_def plain_edge_def
        get_edge_data_def dict_get_def)
  from a b c d e h i duration_5040 f g show ?thesis by (intro conjI)
qed

lemma no_path_fails:
  assumes "nn g (snd origin) (fst origin) = Inr origin_node"
    and "nn g (snd destination) (fst destination) = Inr dest_node"
    and "sp g origin_node dest_node = Inl NetworkXNoPath"
  shows "plan_route nn sp g origin destination = Inl NetworkXNoPath"
  using assms by (simp add: plan_route_def)

text \<open>
  Claim C8. Let the search report a missing path the way NetworkX does, by raising
  \<open>NetworkXNoPath\<close>. When no path leads from the node nearest the origin to the node
  nearest the destination, the planner catches the exception and returns \<open>None\<close>, no
  route; the request then ends with exit status 1 and prints no route.
\<close>

theorem no_path_no_route:
  assumes "\<forall>s t. \<not> reachable g s t \<longrightarrow> sp g s t = Inl NetworkXNoPath"
    and "nn g (snd origin) (fst origin) = Inr origin_node"
    and "nn g (snd destination) (fst destination) = Inr dest_node"
    and "\<not> reachable g origin_node dest_node"
  shows "plan_route nn sp g origin destination = Inl NetworkXNoPath \<and>
         find_accessible_route nn sp g origin destination = None \<and>
         (calculate_obstacle_weights ne graph obstacles user_preferences = Inr g \<longrightarrow>
            route_request ne nn sp graph origin destination obstacles user_preferences = Exit1)"
proof -
  from assms(1,4) have "sp g origin_node dest_node = Inl NetworkXNoPath" by blast
  with assms(2,3) have p: "plan_route nn sp g origin destination = Inl NetworkXNoPath"
    by (rule no_path_fails)
  then have f: "find_accessible_route nn sp g origin destination = None"
    by (simp add: find_accessible_route_def)
  then have "route_request ne nn sp graph origin destination obstacles user_preferences = Exit1"
    if "calculate_obstacle_weights ne graph obstacles user_preferences = Inr g"
    using that by (simp add: route_request_def)
  with p f show ?thesis by blast
qed

lemma one_way_edges:
  "{(u, v). \<exists>k data. ((u, v, k), data) \<in> set (edges one_way_graph)} = {(1, 2)}"
  by (auto simp: one_way_graph_def)

lemma one_way_reachable: "reachable one_way_graph s t \<longleftrightarrow> s = t \<or> (s = 1 \<and> t = 2)"
proof
  assume "reachable one_way_graph s t"
  then have "(s, t) \<in> {(1, 2 :: int)}\<^sup>*"
    by (simp add: reachable_def one_way_edges)
  then show "s = t \<or> (s = 1 \<and> t = 2)"
    by (induction rule: rtrancl_induct) auto
next
  assume "s = t \<or> (s = 1 \<and> t = 2)"
  then show "reachable one_way_graph s t"
    by (auto simp: reachable_def one_way_edges)
qed

lemma one_way_weighted:
  "calculate_obstacle_weights no_nearest single_edge_graph [] None = Inr one_way_graph"
  by (simp add: calculate_obstacle_weights_def preferences_or_default_def no_preferences_def
      single_edge_graph_def one_way_graph_def edge_weight_def plain_edge_def dict_get_def Let_def)

theorem no_path_no_route_witness:
  "one_way_nearest_nodes one_way_graph (snd (1 / 1000 :: real, 0 :: real))
     (fst (1 / 1000 :: real, 0 :: real)) = Inr 2 \<and>
   one_way_nearest_nodes one_way_graph (snd (0 :: real, 0 :: real)) (fst (0 :: real, 0 :: real)) =
     Inr 1 \<and>
   \<not> reachable one_way_graph 2 1 \<and>
   calculate_obstacle_weights no_nearest single_edge_graph [] None = Inr one_way_graph \<and>
   plan_route one_way_nearest_nodes one_way_shortest_path one_way_graph (1 / 1000, 0) (0, 0) =
     Inl NetworkXNoPath \<and>
   find_accessible_route one_way_nearest_nodes one_way_shortest_path one_way_graph
     (1 / 1000, 0) (0, 0) = None \<and>
   route_request no_nearest one_way_nearest_nodes one_way_shortest_path single_edge_graph
     (1 / 1000, 0) (0, 0) [] None = Exit1"
proof -
  have c: "\<forall>s t. \<not> reachable one_way_graph s t \<longrightarrow>
      one_way_shortest_path one_way_graph s t = Inl NetworkXNoPath"
    by (simp add: one_way_reachable one_way_shortest_path_def)
  have o: "one_way_nearest_nodes one_way_graph (snd (1 / 1000 :: real, 0 :: real))
      (fst (1 / 1000 :: real, 0 :: real)) = Inr 2"
    by (simp add: one_way_nearest_nodes_def)
  have d: "one_way_nearest_nodes one_way_graph (snd (0 :: real, 0 :: real))
      (fst (0 :: real, 0 :: real)) = Inr 1"
    by (simp add: one_way_nearest_nodes_def)
  have n: "\<not> reachable one_way_graph 2 1"
    by (simp add: one_way_reachable)
  note t = no_path_no_route [where g = one_way_graph and sp = one_way_shortest_path
      and nn = one_way_nearest_nodes and origin = "(1 / 1000, 0)" and destination = "(0, 0)"
      and origin_node = 2 and dest_node = 1 and ne = no_nearest and graph = single_edge_graph
      and obstacles = "[]" and user_preferences = None, OF c o d n]
  from t one_way_weighted o d n show ?thesis by simp
qed

text \<open>
  Claim C5 fails on the code. The loop of lines 174 to 180 reads the edge with key 0
  between two nodes of the path, whichever parallel edge the search has taken. Between
  nodes 1 and 2 the edge with key 1 is the cheapest (weight 10 against 100) and carries
  the obstacle score 20, and the route from 1 to 2 is reported with no obstacles and with
  the 100 meters of the edge with key 0.
\<close>

theorem has_obstacles_reads_key_0:
  "calculate_obstacle_weights no_nearest parallel_graph [] None = Inr weighted_parallel_graph \<and>
   parallel_shortest_path weighted_parallel_graph 1 2 = Inr [1, 2] \<and>
   map_option (\<lambda>(e, data). (e, weight data, obstacle_score data))
     (cheapest_edge weighted_parallel_graph 1 2) = Some ((1, 2, 1), Some 10, Some 20) \<and>
   map_option (\<lambda>data. (weight data, obstacle_score data))
     (get_edge_data weighted_parallel_graph 1 2 0) = Some (Some 100, Some 0) \<and>
   route_stats weighted_parallel_graph [1, 2] 0 False = Inr (100, False) \<and>
   map_option hasObstacles
     (find_accessible_route parallel_nearest_nodes parallel_shortest_path weighted_parallel_graph
        (0, 0) (1 / 1000, 0)) = Some False"
proof -
  have a: "calculate_obstacle_weights no_nearest parallel_graph [] None = Inr weighted_parallel_graph"
    by (simp add: calculate_obstacle_weights_def preferences_or_default_def no_preferences_def
        parallel_graph_def weighted_parallel_graph_def edge_weight_def plain_edge_def
        dict_get_def Let_def)
  have b: "parallel_shortest_path weighted_parallel_graph 1 2 = Inr [1, 2]"
    by (simp add: parallel_shortest_path_def)
  have c: "map_option (\<lambda>(e, data). (e, weight data, obstacle_score data))
      (cheapest_edge weighted_parallel_graph 1 2) = Some ((1, 2, 1), Some 10, Some 20)"
    by (simp add: cheapest_edge_def parallel_edges_def weighted_parallel_graph_def
        plain_edge_def dict_get_def)
  have d: "map_option (\<lambda>data. (weight data, obstacle_score data))
      (get_edge_data weighted_parallel_graph 1 2 0) = Some (Some 100, Some 0)"
    by (simp add: get_edge_data_def weighted_parallel_graph_def plain_edge_def)
  have e: "route_stats weighted_parallel_graph [1, 2] 0 False = Inr (100, False)"
    by (simp add: get_edge_data_def weighted_parallel_graph_def plain_edge_def dict_get_def)
  have f: "map_option hasObstacles
      (find_accessible_route parallel_nearest_nodes parallel_shortest_path weighted_parallel_graph
         (0, 0) (1 / 1000, 0)) = Some False"
    by (simp add: find_accessible_route_def plan_route_def parallel_nearest_nodes_def
        parallel_shortest_path_def weighted_parallel_graph_def node_at_def plain_edge_def
        get_edge_data_def dict_get_def)
  from a b c d e f show ?thesis by (intro conjI)
qed

section \<open>Further properties of the weight calculator and of the enrichment\<close>

lemma edge_weight_returns:
  assumes "dict_get (maxSlope prefs) (8 / 100) \<noteq> 0"
    and "dict_get (minimumWidth prefs) (12 / 10) \<noteq> 0"
    and "grade data \<noteq> Some PyNone"
  shows "\<exists>data'. edge_weight prefs data = Inr data'"
proof -
  from assms(3) obtain g where "dict_get (grade data) (Num 0) = Num g"
    by (cases "grade data"; cases "dict_get (grade data) (Num 0)")
       (auto simp: dict_get_def)
  with assms(1,2) show ?thesis
    by (simp add: edge_weight_def Let_def)
qed

lemma weight_edges_returns:
  assumes "dict_get (maxSlope prefs) (8 / 100) \<noteq> 0"
    and "dict_get (minimumWidth prefs) (12 / 10) \<noteq> 0"
    and "list_all (\<lambda>(e, data). grade data \<noteq> Some PyNone) es"
  shows "\<exists>es'. weight_edges prefs es = Inr es'"
  using assms(3)
proof (induction es)
  case Nil
  then show ?case by simp
next
  case (Cons a es)
  obtain e data where a: "a = (e, data)" by (cases a)
  with Cons.prems have "grade data \<noteq> Some PyNone"
    and rest: "list_all (\<lambda>(e, data). grade data \<noteq> Some PyNone) es"
    by simp_all
  from edge_weight_returns [OF assms(1,2) this(1)] obtain data' where
    "edge_weight prefs data = Inr data'" by blast
  moreover from Cons.IH [OF rest] obtain es' where "weight_edges prefs es = Inr es'" by blast
  ultimately show ?case using a by simp
qed

text \<open>
  The weight calculator returns a graph whenever the slope threshold and the minimum
  width are not zero and no edge holds the grade \<open>None\<close>: the obstacle loop cannot fail.
\<close>

lemma calculator_returns:
  assumes "dict_get (maxSlope (preferences_or_default user_preferences)) (8 / 100) \<noteq> 0"
    and "dict_get (minimumWidth (preferences_or_default user_preferences)) (12 / 10) \<noteq> 0"
    and "list_all (\<lambda>(e, data). grade data \<noteq> Some PyNone) (edges g)"
  shows "\<exists>g'. calculate_obstacle_weights ne g obstacles user_preferences = Inr g'"
proof -
  from weight_edges_returns [OF assms] obtain es where
    "weight_edges (preferences_or_default user_preferences) (edges g) = Inr es" by blast
  then show ?thesis by (simp add: calculate_obstacle_weights_def)
qed

lemma calculator_returns_witness:
  "dict_get (maxSlope (preferences_or_default None)) (8 / 100) \<noteq> 0 \<and>
   dict_get (minimumWidth (preferences_or_default None)) (12 / 10) \<noteq> 0 \<and>
   list_all (\<lambda>(e, data). grade data \<noteq> Some PyNone) (edges triangle_graph) \<and>
   (\<exists>g'. calculate_obstacle_weights triangle_nearest triangle_graph [stairs_obstacle] None = Inr g')"
proof -
  have a: "dict_get (maxSlope (preferences_or_default None)) (8 / 100) \<noteq> 0"
    by (simp add: preferences_or_default_def no_preferences_def dict_get_def)
  have b: "dict_get (minimumWidth (preferences_or_default None)) (12 / 10) \<noteq> 0"
    by (simp add: preferences_or_default_def no_preferences_def dict_get_def)
  have c: "list_all (\<lambda>(e, data). grade data \<noteq> Some PyNone) (edges triangle_graph)"
    by (simp add: triangle_graph_def plain_edge_def)
  from calculator_returns [OF a b c, of triangle_nearest "[stairs_obstacle]"] a b c
  show ?thesis by blast
qed

text \<open>
  An edge whose grade is \<open>None\<close>, which the enrichment tolerates (line 105 of
  \<^verbatim>\<open>create_graph.py\<close>), makes the weight calculator raise: \<^verbatim>\<open>abs(None)\<close> is a
  \<open>TypeError\<close>, and the request ends with exit status 1.
\<close>

lemma null_grade_raises:
  assumes "grade data = Some PyNone"
    and "dict_get (minimumWidth (preferences_or_default user_preferences)) (12 / 10) \<noteq> 0"
  shows "calculate_obstacle_weights ne (g\<lparr>edges := (e, data) # es\<rparr>) obstacles user_preferences =
           Inl TypeError \<and>
         route_request ne nn sp (g\<lparr>edges := (e, data) # es\<rparr>) origin destination obstacles
           user_preferences = Exit1 \<and>
         grade (enrich_edge pyfloat data) = Some PyNone"
proof -
  from assms have "edge_weight (preferences_or_default user_preferences) data = Inl TypeError"
    by (simp add: edge_weight_def Let_def dict_get_def)
  then have c: "calculate_obstacle_weights ne (g\<lparr>edges := (e, data) # es\<rparr>) obstacles
      user_preferences = Inl TypeError"
    by (simp add: calculate_obstacle_weights_def)
  then have "route_request ne nn sp (g\<lparr>edges := (e, data) # es\<rparr>) origin destination obstacles
      user_preferences = Exit1"
    by (simp add: route_request_def)
  moreover from assms(1) have "grade (enrich_edge pyfloat data) = Some PyNone"
    by (simp add: enrich_edge_def add_slope_score_def init_and_tags_grade)
  ultimately show ?thesis using c by simp
qed

lemma null_grade_raises_witness:
  "grade ((plain_edge 10)\<lparr>grade := Some PyNone\<rparr>) = Some PyNone \<and>
   dict_get (minimumWidth (preferences_or_default None)) (12 / 10) \<noteq> 0 \<and>
   calculate_obstacle_weights no_nearest
     (single_edge_graph\<lparr>edges := [((1, 2, 0), (plain_edge 10)\<lparr>grade := Some PyNone\<rparr>)]\<rparr>) [] None =
     Inl TypeError"
proof -
  have a: "grade ((plain_edge 10)\<lparr>grade := Some PyNone\<rparr>) = Some PyNone" by simp
  have b: "dict_get (minimumWidth (preferences_or_default None)) (12 / 10) \<noteq> 0"
    by (simp add: preferences_or_default_def no_preferences_def dict_get_def)
  note t = null_grade_raises [where ne = no_nearest and g = single_edge_graph
      and e = "(1, 2, 0)" and es = "[]" and obstacles = "[]", OF a b]
  from t a b show ?thesis by simp
qed

text \<open>
  An obstacle without a location, or located at (0, 0), is skipped, and so is an obstacle
  whose edge lookup raises: the graph is left as it is.
\<close>

lemma obstacle_skipped:
  assumes "(obstacle_lat ob = 0 \<and> obstacle_lng ob = 0) \<or>
           (\<exists>err. ne g (obstacle_lng ob) (obstacle_lat ob) = Inl err)"
  shows "apply_obstacle ne ob g = g"
  using assms by (auto simp: apply_obstacle_def Let_def)

lemma obstacle_skipped_witness:
  "obstacle_lat \<lparr>obstacleType = Some ''STAIRS'', obstacleScore = Some 1, location_attr = None\<rparr> = 0 \<and>
   obstacle_lng \<lparr>obstacleType = Some ''STAIRS'', obstacleScore = Some 1, location_attr = None\<rparr> = 0 \<and>
   apply_obstacle triangle_nearest
     \<lparr>obstacleType = Some ''STAIRS'', obstacleScore = Some 1, location_attr = None\<rparr>
     triangle_graph = triangle_graph"
proof -
  let ?ob = "\<lparr>obstacleType = Some ''STAIRS'', obstacleScore = Some 1, location_attr = None\<rparr>"
  have a: "obstacle_lat ?ob = 0" by (simp add: obstacle_lat_def)
  have b: "obstacle_lng ?ob = 0" by (simp add: obstacle_lng_def)
  from a b have c: "(obstacle_lat ?ob = 0 \<and> obstacle_lng ?ob = 0) \<or>
      (\<exists>err. triangle_nearest triangle_graph (obstacle_lng ?ob) (obstacle_lat ?ob) = Inl err)"
    by simp
  note t = obstacle_skipped [where ne = triangle_nearest and g = triangle_graph and ob = ?ob, OF c]
  from t a b show ?thesis by simp
qed

lemma edge_weight_original:
  "edge_weight prefs data = Inr data' \<Longrightarrow>
     original_obstacle_score data' = Some (dict_get (obstacle_score data) 0)"
  by (auto simp: edge_weight_def Let_def split: if_splits py_num.splits)

lemma weight_edges_original:
  "weight_edges prefs es = Inr es' \<Longrightarrow>
     list_all2 (\<lambda>(e, data) (e', orig). e' = e \<and> orig = Some (dict_get (obstacle_score data) 0))
       es (map (\<lambda>(e, data). (e, original_obstacle_score data)) es')"
proof (induction es arbitrary: es')
  case Nil
  then show ?case by simp
next
  case (Cons a es)
  obtain e data where a: "a = (e, data)" by (cases a)
  from Cons.prems a obtain data' rest' where
    d: "edge_weight prefs data = Inr data'" and r: "weight_edges prefs es = Inr rest'"
    and es': "es' = (e, data') # rest'"
    by (auto split: sum.splits)
  from edge_weight_original [OF d] Cons.IH [OF r] a es' show ?case by simp
qed

lemma add_penalty_original:
  assumes "add_penalty e p g = Inr g'"
  shows "map (\<lambda>(e, data). (e, original_obstacle_score data)) (edges g') =
         map (\<lambda>(e, data). (e, original_obstacle_score data)) (edges g)"
proof -
  from assms obtain data w where d: "map_of (edges g) e = Some data"
    and g': "g' = g\<lparr>edges := AList.update e
        (data\<lparr>weight := Some (w + p), obstacle_score := Some (dict_get (obstacle_score data) 0 + p)\<rparr>)
        (edges g)\<rparr>"
    by (auto simp: add_penalty_def split: option.splits)
  show ?thesis
    unfolding g' by (simp add: map_update_same [OF d])
qed

text \<open>
  The first loop records the obstacle score of the enrichment (0 when the edge has
  none) as the original obstacle score, and the obstacle loop leaves it alone.
\<close>

lemma original_score_recorded:
  assumes "calculate_obstacle_weights ne g obstacles user_preferences = Inr g'"
  shows "list_all2 (\<lambda>(e, data) (e', data'). e' = e \<and>
             original_obstacle_score data' = Some (dict_get (obstacle_score data) 0))
           (edges g) (edges g')"
proof -
  let ?f = "\<lambda>(e :: edge_id, data). (e, original_obstacle_score data)"
  from assms obtain es where es: "weight_edges (preferences_or_default user_preferences) (edges g) = Inr es"
    and g': "g' = fold (apply_obstacle ne) obstacles (g\<lparr>edges := es\<rparr>)"
    by (auto simp: calculate_obstacle_weights_def split: sum.splits)
  have "map ?f (edges g') = map ?f es"
    unfolding g'
    by (rule fold_apply_obstacle_preserves [where P = "\<lambda>g'. map ?f (edges g') = map ?f es"])
       (simp_all add: add_penalty_original)
  with weight_edges_original [OF es]
  have "list_all2 (\<lambda>(e, data) (e', orig). e' = e \<and> orig = Some (dict_get (obstacle_score data) 0))
      (edges g) (map ?f (edges g'))"
    by simp
  then have "list_all2 (\<lambda>x y. (\<lambda>(e, data) (e', orig). e' = e \<and>
      orig = Some (dict_get (obstacle_score data) 0)) x (?f y)) (edges g) (edges g')"
    by (simp only: list_all2_map2)
  then show ?thesis
    by (rule list_all2_mono) auto
qed

lemma original_score_recorded_witness:
  "calculate_obstacle_weights triangle_nearest triangle_graph [stairs_obstacle] None =
     Inr (triangle_graph\<lparr>edges := penalised_triangle_edges\<rparr>) \<and>
   list_all2 (\<lambda>(e, data) (e', data'). e' = e \<and>
       original_obstacle_score data' = Some (dict_get (obstacle_score data) 0))
     (edges triangle_graph) (edges (triangle_graph\<lparr>edges := penalised_triangle_edges\<rparr>)) \<and>
   map (\<lambda>(e, data). original_obstacle_score data) penalised_triangle_edges =
     [Some 100, Some 0, Some 12]"
proof -
  have "map (\<lambda>(e, data). original_obstacle_score data) penalised_triangle_edges =
      [Some 100, Some 0, Some 12]"
    by (simp add: penalised_triangle_edges_def)
  with original_score_recorded [OF calculate_triangle] calculate_triangle show ?thesis
    by (intro conjI)
qed

text \<open>
  The stairs preference: with \<open>avoidStairs\<close> true (or absent) an edge with stairs of
  length 10 gets the weight 1010 from the first loop, and with \<open>avoidStairs\<close> false the
  weight 10.
\<close>

lemma stairs_preference:
  "edge_weight \<lparr>maxSlope = None, avoidStairs = Some True, minimumWidth = None\<rparr>
     ((plain_edge 10)\<lparr>stairs := Some ''yes''\<rparr>) =
     Inr ((plain_edge 10)\<lparr>stairs := Some ''yes'', weight := Some 1010,
            original_obstacle_score := Some 0\<rparr>) \<and>
   edge_weight no_preferences ((plain_edge 10)\<lparr>stairs := Some ''yes''\<rparr>) =
     Inr ((plain_edge 10)\<lparr>stairs := Some ''yes'', weight := Some 1010,
            original_obstacle_score := Some 0\<rparr>) \<and>
   edge_weight \<lparr>maxSlope = None, avoidStairs = Some False, minimumWidth = None\<rparr>
     ((plain_edge 10)\<lparr>stairs := Some ''yes''\<rparr>) =
     Inr ((plain_edge 10)\<lparr>stairs := Some ''yes'', weight := Some 10,
            original_obstacle_score := Some 0\<rparr>)"
  by (simp add: edge_weight_def no_preferences_def plain_edge_def dict_get_def Let_def)

text \<open>
  An edge without tags, and without a grade above the double 0.08, gets exactly the
  defaults of the enrichment: no stairs, width 2.0, unknown surface and lighting, obstacle
  score 0.
\<close>

lemma enrichment_defaults:
  assumes "tags data = None" and "\<bar>grade_value data\<bar> \<le> fl (8 / 100)"
  shows "enrich_edge pyfloat data =
           data\<lparr>stairs := Some ''no'', width := Some 2, surface := Some ''unknown'',
                 lit := Some ''unknown'', obstacle_score := Some 0\<rparr>"
  using assms
  by (auto simp: enrich_edge_def init_and_tags_def add_slope_score_def grade_value_def Let_def
      split: option.splits py_num.splits)

lemma enrichment_defaults_example:
  "tags (raw_edge 10 (Some (Num (5 / 100))) None) = None \<and>
   \<bar>grade_value (raw_edge 10 (Some (Num (5 / 100))) None)\<bar> \<le> fl (8 / 100) \<and>
   enrich_edge float_plain (raw_edge 10 (Some (Num (5 / 100))) None) =
     (plain_edge 10)\<lparr>grade := Some (Num (5 / 100))\<rparr>"
proof -
  have a: "tags (raw_edge 10 (Some (Num (5 / 100))) None) = None"
    by (simp add: raw_edge_def)
  have b: "\<bar>grade_value (raw_edge 10 (Some (Num (5 / 100))) None)\<bar> \<le> fl (8 / 100)"
    unfolding fl_008 by (simp add: raw_edge_def grade_value_def)
  from enrichment_defaults [OF a b, of float_plain] a b show ?thesis
    by (simp add: raw_edge_def plain_edge_def)
qed

text \<open>An unlit slope of grade 0.12: 20 for the lighting and 12 for the grade.\<close>

lemma unlit_slope_example:
  "obstacle_score (init_and_tags float_plain steep_unlit_edge) = Some 20 \<and>
   obstacle_score (enrich_edge float_plain steep_unlit_edge) = Some 32"
proof -
  have s: "obstacle_score (init_and_tags float_plain steep_unlit_edge) = Some 20"
    by (simp add: steep_unlit_edge_def raw_edge_def init_and_tags_def apply_tags_def
        add_score_def dict_get_def Let_def)
  have g: "grade steep_unlit_edge = Some (Num (fl (12 / 100)))"
    by (simp add: steep_unlit_edge_def raw_edge_def)
  have a: "fl (8 / 100) < fl (12 / 100)" "0 \<le> fl (12 / 100)"
    unfolding fl_008 fl_012 by simp_all
  have t: "py_int (fl (fl (12 / 100) * 100)) = 12"
    unfolding fl_012_times_100 by (simp add: py_int_def)
  from enrich_edge_slope [OF g, of float_plain] s a t show ?thesis
    by (simp add: abs_of_nonneg)
qed

end
